theory Spec2Isabelle
  imports Complex_Main "HOL-Library.Sublist"
begin

chapter \<open>The analyzers as functions\<close>

section \<open>Security-header analyzer (core\_analyzer.py, analyze\_security\_headers)\<close>

text \<open>
  The response headers reach the analyzer as a plain Python dict
  (\<^verbatim>\<open>dict(response.headers)\<close>): a finite map from header name to value whose
  lookup \<^verbatim>\<open>header in response_headers\<close> compares names exactly.
\<close>

type_synonym headers = "string \<rightharpoonup> string"

text \<open>
  The table \<^verbatim>\<open>important_headers\<close>, in insertion order, with the \<^verbatim>\<open>'score'\<close>
  of every entry (the \<^verbatim>\<open>'present'\<close> and \<^verbatim>\<open>'value'\<close> fields start as
  \<^verbatim>\<open>False\<close> and \<^verbatim>\<open>None\<close> and are only written inside the loop).
\<close>

definition important_headers :: "(string \<times> nat) list" where
  "important_headers =
    [(''Strict-Transport-Security'', 10),
     (''X-Frame-Options'', 10),
     (''X-Content-Type-Options'', 10),
     (''Content-Security-Policy'', 15),
     (''X-XSS-Protection'', 5),
     (''Referrer-Policy'', 5),
     (''Permissions-Policy'', 10),
     (''Cross-Origin-Embedder-Policy'', 5),
     (''Cross-Origin-Opener-Policy'', 5),
     (''Cross-Origin-Resource-Policy'', 5)]"

text \<open>\<^verbatim>\<open>total_possible_score = sum(h['score'] for h in important_headers.values())\<close>\<close>

definition total_possible_score :: nat where
  "total_possible_score = sum_list (map snd important_headers)"

text \<open>
  The state of the scoring loop: \<^verbatim>\<open>actual_score\<close> and the dict
  \<^verbatim>\<open>security['headers_present']\<close> (an association list in insertion order; the
  keys are distinct because the table's are).
\<close>

record score_state =
  actual_score :: nat
  headers_present :: "(string \<times> string) list"

text \<open>
  One iteration of \<^verbatim>\<open>for header, info in important_headers.items()\<close>:
  a present header adds its score and stores its value cut to 200 characters.
\<close>

definition score_step :: "headers \<Rightarrow> score_state \<Rightarrow> string \<times> nat \<Rightarrow> score_state" where
  "score_step response_headers st hi =
     (case response_headers (fst hi) of
        None \<Rightarrow> st
      | Some v \<Rightarrow> \<lparr>actual_score = actual_score st + snd hi,
                   headers_present = headers_present st @ [(fst hi, take 200 v)]\<rparr>)"

definition score_loop :: "headers \<Rightarrow> score_state" where
  "score_loop response_headers =
     foldl (score_step response_headers)
       \<lparr>actual_score = 0, headers_present = []\<rparr> important_headers"

text \<open>
  The sub-dict \<^verbatim>\<open>security['csp']\<close> when the header is present; \<open>None\<close> stands for
  \<^verbatim>\<open>{'present': False}\<close>. \<^verbatim>\<open>x in s\<close> on strings is containment of a contiguous
  substring, and \<^verbatim>\<open>len(s.split(';'))\<close> is one more than the number of semicolons.
\<close>

record csp_analysis =
  directives :: nat
  unsafe_inline :: bool
  unsafe_eval :: bool
  default_src :: bool
  script_src :: bool
  style_src :: bool
  report_uri :: bool

definition analyze_csp :: "headers \<Rightarrow> csp_analysis option" where
  "analyze_csp response_headers =
     (case response_headers ''Content-Security-Policy'' of
        None \<Rightarrow> None
      | Some csp \<Rightarrow> Some
          \<lparr>directives = Suc (count_list csp (CHR '';'')),
           unsafe_inline = sublist ''unsafe-inline'' csp,
           unsafe_eval = sublist ''unsafe-eval'' csp,
           default_src = sublist ''default-src'' csp,
           script_src = sublist ''script-src'' csp,
           style_src = sublist ''style-src'' csp,
           report_uri = (sublist ''report-uri'' csp \<or> sublist ''report-to'' csp)\<rparr>)"

record cookie_analysis =
  secure :: bool
  httponly :: bool
  samesite :: bool
  samesite_strict :: bool
  samesite_lax :: bool

definition analyze_cookies :: "headers \<Rightarrow> cookie_analysis option" where
  "analyze_cookies response_headers =
     (case response_headers ''Set-Cookie'' of
        None \<Rightarrow> None
      | Some cookies \<Rightarrow> Some
          \<lparr>secure = sublist ''Secure'' cookies,
           httponly = sublist ''HttpOnly'' cookies,
           samesite = sublist ''SameSite'' cookies,
           samesite_strict = sublist ''SameSite=Strict'' cookies,
           samesite_lax = sublist ''SameSite=Lax'' cookies\<rparr>)"

text \<open>
  The returned dict. The keys \<^verbatim>\<open>'https'\<close> and \<^verbatim>\<open>'permissions'\<close> stay empty dicts and
  carry no information. \<^verbatim>\<open>security_score\<close> is
  \<^verbatim>\<open>(actual_score / total_possible_score) * 100 if total_possible_score > 0 else 0\<close>,
  a Python float. Every score in the table is a multiple of 5 and the total is 80, so
  the quotient is a multiple of 1/16 and its product with 100 a multiple of 1/4 below
  128: both are binary fractions that a double holds exactly, and the rational number
  computed here is the value of that float.
\<close>

record security =
  sec_headers_present :: "(string \<times> string) list"
  sec_cookies :: "cookie_analysis option"
  sec_csp :: "csp_analysis option"
  security_score :: rat

definition analyze_security_headers :: "headers \<Rightarrow> security" where
  "analyze_security_headers response_headers =
     (let st = score_loop response_headers in
      \<lparr>sec_headers_present = headers_present st,
       sec_cookies = analyze_cookies response_headers,
       sec_csp = analyze_csp response_headers,
       security_score =
         (if total_possible_score > 0
          then (of_nat (actual_score st) / of_nat total_possible_score) * 100
          else 0)\<rparr>)"

text \<open>The ten header names of the table.\<close>

definition header_names :: "string list" where
  "header_names = map fst important_headers"

section \<open>The parsed document\<close>

text \<open>
  BeautifulSoup parses the page into a tree of \<^verbatim>\<open>Tag\<close> objects (a name, a dict of
  attributes, a list of children) and \<^verbatim>\<open>NavigableString\<close> leaves. The attribute dict
  is kept as an association list read with \<open>map_of\<close>; its keys are distinct, as a dict's
  are. The attributes the analyzers below read (\<^verbatim>\<open>alt\<close>, \<^verbatim>\<open>id\<close>, \<^verbatim>\<open>href\<close>,
  \<^verbatim>\<open>src\<close>, \<^verbatim>\<open>tabindex\<close>, \<^verbatim>\<open>type\<close>, \<^verbatim>\<open>loading\<close>, \<^verbatim>\<open>srcset\<close>, \<^verbatim>\<open>role\<close>) have
  string values. A Python string is a sequence of code points; \<open>string\<close> holds the code
  points below 256. The \<^verbatim>\<open>BeautifulSoup\<close> object itself is the list of its top-level
  nodes.
\<close>

datatype node = Tag string "(string \<times> string) list" "node list" | Text string

type_synonym soup = "node list"

text \<open>\<^verbatim>\<open>element.get(name)\<close>: the attribute's value, or \<^verbatim>\<open>None\<close>.\<close>

fun get_attr :: "node \<Rightarrow> string \<Rightarrow> string option" where
  "get_attr (Tag n attrs cs) a = map_of attrs a"
| "get_attr (Text s) a = None"

fun tag_name :: "node \<Rightarrow> string" where
  "tag_name (Tag n attrs cs) = n"
| "tag_name (Text s) = []"

text \<open>
  \<open>tags_of e\<close> lists \<open>e\<close> (when it is a tag) and every tag below it in document
  order. \<^verbatim>\<open>soup.find_all()\<close> is that list for every top-level node, and
  \<^verbatim>\<open>element.findChildren()\<close>, which is \<^verbatim>\<open>find_all\<close> with its default
  \<^verbatim>\<open>recursive=True\<close>, is every tag below \<open>element\<close>, not only its direct children.
\<close>

fun tags_of :: "node \<Rightarrow> node list" where
  "tags_of (Tag n attrs cs) = Tag n attrs cs # concat (map tags_of cs)"
| "tags_of (Text s) = []"

definition find_all :: "soup \<Rightarrow> node list" where
  "find_all sp = concat (map tags_of sp)"

fun findChildren :: "node \<Rightarrow> node list" where
  "findChildren (Tag n attrs cs) = concat (map tags_of cs)"
| "findChildren (Text s) = []"

text \<open>\<^verbatim>\<open>soup.find_all(name)\<close> and \<^verbatim>\<open>soup.find(name)\<close> (\<^verbatim>\<open>soup.html\<close> is \<^verbatim>\<open>soup.find('html')\<close>).\<close>

definition find_all_named :: "string \<Rightarrow> soup \<Rightarrow> node list" where
  "find_all_named nm sp = filter (\<lambda>e. tag_name e = nm) (find_all sp)"

definition find_named :: "string \<Rightarrow> soup \<Rightarrow> node option" where
  "find_named nm sp = (case find_all_named nm sp of [] \<Rightarrow> None | e # es \<Rightarrow> Some e)"

text \<open>
  \<^verbatim>\<open>str.strip()\<close> removes leading and trailing whitespace; among the code points below
  256 the whitespace characters (\<^verbatim>\<open>str.isspace\<close>) are 9 to 13, 28 to 32, 133 and 160.
\<close>

definition py_isspace :: "char \<Rightarrow> bool" where
  "py_isspace c = ((of_char c :: nat) \<in> set [9, 10, 11, 12, 13, 28, 29, 30, 31, 32, 133, 160])"

definition py_strip :: "string \<Rightarrow> string" where
  "py_strip s = rev (dropWhile py_isspace (rev (dropWhile py_isspace s)))"

text \<open>\<^verbatim>\<open>s.startswith(p)\<close> is \<open>prefix p s\<close>; the truth value of a string is its being non-empty.\<close>

definition truthy :: "string option \<Rightarrow> bool" where
  "truthy v = (case v of None \<Rightarrow> False | Some s \<Rightarrow> s \<noteq> [])"

section \<open>Image analyzer (comprehensive\_analyzer.py, analyze\_images\_comprehensive)\<close>

text \<open>
  The counters of the \<^verbatim>\<open>analysis\<close> dict. The three dicts \<^verbatim>\<open>formats\<close>,
  \<^verbatim>\<open>size_attributes\<close> and \<^verbatim>\<open>image_locations\<close> and the three float ratios are written
  by statements that neither read nor write a counter kept here, and are left out.
\<close>

record image_analysis =
  total_images :: nat
  with_alt :: nat
  without_alt :: nat
  empty_alt :: nat
  lazy_loading :: nat
  responsive_images :: nat
  base64_images :: nat
  svg_images :: nat
  picture_elements :: nat
  srcset_usage :: nat

definition image_analysis_init :: image_analysis where
  "image_analysis_init =
     \<lparr>total_images = 0, with_alt = 0, without_alt = 0, empty_alt = 0, lazy_loading = 0,
      responsive_images = 0, base64_images = 0, svg_images = 0, picture_elements = 0,
      srcset_usage = 0\<rparr>"

text \<open>The alt-text statements of the loop body.\<close>

definition alt_step :: "image_analysis \<Rightarrow> node \<Rightarrow> image_analysis" where
  "alt_step an img =
     (case get_attr img ''alt'' of
        Some alt \<Rightarrow>
          (let an1 = an\<lparr>with_alt := with_alt an + 1\<rparr>
           in if py_strip alt = [] then an1\<lparr>empty_alt := empty_alt an1 + 1\<rparr> else an1)
      | None \<Rightarrow> an\<lparr>without_alt := without_alt an + 1\<rparr>)"

text \<open>The lazy-loading, base64 and srcset statements of the loop body.\<close>

definition lazy_step :: "image_analysis \<Rightarrow> node \<Rightarrow> image_analysis" where
  "lazy_step an img =
     (if get_attr img ''loading'' = Some ''lazy''
      then an\<lparr>lazy_loading := lazy_loading an + 1\<rparr> else an)"

definition src_step :: "image_analysis \<Rightarrow> node \<Rightarrow> image_analysis" where
  "src_step an img =
     (let src = (case get_attr img ''src'' of None \<Rightarrow> [] | Some s \<Rightarrow> s)
      in if prefix ''data:image'' src
         then an\<lparr>base64_images := base64_images an + 1\<rparr> else an)"

definition srcset_step :: "image_analysis \<Rightarrow> node \<Rightarrow> image_analysis" where
  "srcset_step an img =
     (if truthy (get_attr img ''srcset'')
      then an\<lparr>srcset_usage := srcset_usage an + 1,
              responsive_images := responsive_images an + 1\<rparr>
      else an)"

definition img_step :: "image_analysis \<Rightarrow> node \<Rightarrow> image_analysis" where
  "img_step an img = srcset_step (src_step (lazy_step (alt_step an img) img) img) img"

text \<open>The body of \<^verbatim>\<open>for picture in pictures\<close>.\<close>

definition picture_step :: "image_analysis \<Rightarrow> node \<Rightarrow> image_analysis" where
  "picture_step an picture = an\<lparr>responsive_images := responsive_images an + 1\<rparr>"

text \<open>
  The analyzer reads \<^verbatim>\<open>self.soup\<close>, which is \<^verbatim>\<open>None\<close> until a page has been fetched;
  then the initial dict is returned.
\<close>

definition analyze_images_comprehensive :: "soup option \<Rightarrow> image_analysis" where
  "analyze_images_comprehensive self_soup =
     (case self_soup of
        None \<Rightarrow> image_analysis_init
      | Some sp \<Rightarrow>
          (let images = find_all_named ''img'' sp;
               an = foldl img_step (image_analysis_init\<lparr>total_images := length images\<rparr>) images;
               pictures = find_all_named ''picture'' sp;
               an = an\<lparr>picture_elements := length pictures\<rparr>;
               an = foldl picture_step an pictures;
               svgs = find_all_named ''svg'' sp
           in an\<lparr>svg_images := length svgs\<rparr>))"

section \<open>Accessibility analyzer: alternative text (core\_analyzer.py, analyze\_accessibility\_advanced)\<close>

text \<open>
  The sub-dict \<^verbatim>\<open>a11y['alternative_text']\<close>; \<^verbatim>\<open>sum(1 for img in images if c)\<close> is
  the number of images that satisfy \<open>c\<close>.
\<close>

record alternative_text =
  a11y_total_images :: nat
  a11y_with_alt :: nat
  a11y_empty_alt :: nat
  a11y_missing_alt :: nat
  a11y_decorative :: nat

definition analyze_alternative_text :: "soup \<Rightarrow> alternative_text" where
  "analyze_alternative_text sp =
     (let images = find_all_named ''img'' sp in
      \<lparr>a11y_total_images = length images,
       a11y_with_alt = length (filter (\<lambda>img. get_attr img ''alt'' \<noteq> None) images),
       a11y_empty_alt = length (filter (\<lambda>img. get_attr img ''alt'' = Some []) images),
       a11y_missing_alt = length (filter (\<lambda>img. get_attr img ''alt'' = None) images),
       a11y_decorative =
         length (filter (\<lambda>img. get_attr img ''role'' = Some ''presentation'') images)\<rparr>)"

text \<open>
  The three alt-text states of an image as the specification names them: no
  \<^verbatim>\<open>alt\<close> attribute, \<^verbatim>\<open>alt=""\<close>, a non-empty \<^verbatim>\<open>alt\<close>.
\<close>

datatype alt_state = Missing | Empty | Present

definition alt_state_of :: "node \<Rightarrow> alt_state" where
  "alt_state_of img =
     (case get_attr img ''alt'' of
        None \<Rightarrow> Missing
      | Some alt \<Rightarrow> if alt = [] then Empty else Present)"

definition count_state :: "alt_state \<Rightarrow> node list \<Rightarrow> nat" where
  "count_state st images = length (filter (\<lambda>img. alt_state_of img = st) images)"

text \<open>
  The images on which the two analyzers can differ: an \<^verbatim>\<open>alt\<close> that is not empty and
  consists of whitespace only. \<open>stripped_empty_alt\<close> is the image analyzer's test
  \<^verbatim>\<open>alt is not None and alt.strip() == ''\<close>, \<open>has_alt\<close> is \<^verbatim>\<open>alt is not None\<close>.
\<close>

definition has_alt :: "node \<Rightarrow> bool" where
  "has_alt img = (get_attr img ''alt'' \<noteq> None)"

definition stripped_empty_alt :: "node \<Rightarrow> bool" where
  "stripped_empty_alt img =
     (case get_attr img ''alt'' of None \<Rightarrow> False | Some alt \<Rightarrow> py_strip alt = [])"

definition whitespace_only_alt :: "node \<Rightarrow> bool" where
  "whitespace_only_alt img =
     (case get_attr img ''alt'' of
        None \<Rightarrow> False
      | Some alt \<Rightarrow> alt \<noteq> [] \<and> py_strip alt = [])"

text \<open>The \<^verbatim>\<open>img\<close> elements the image analyzer walks.\<close>

definition images_of :: "soup option \<Rightarrow> node list" where
  "images_of self_soup =
     (case self_soup of None \<Rightarrow> [] | Some sp \<Rightarrow> find_all_named ''img'' sp)"

section \<open>DOM-complexity analyzer (core\_analyzer.py, calculate\_dom\_complexity)\<close>

text \<open>
  Python's \<^verbatim>\<open>max\<close> over a generator. It raises on an empty one; the only call is
  guarded by \<^verbatim>\<open>if not element.findChildren(): return current_depth\<close>, so the first
  equation is never reached.
\<close>

fun py_max :: "nat list \<Rightarrow> nat" where
  "py_max [] = 0"
| "py_max (x # xs) = foldl max x xs"

text \<open>
  The nested function \<^verbatim>\<open>get_tree_depth\<close>. It recurses into every tag below
  \<open>element\<close>, each with \<^verbatim>\<open>current_depth + 1\<close>; every such tag is smaller than
  \<open>element\<close>, so the recursion ends.
\<close>

function get_tree_depth :: "node \<Rightarrow> nat \<Rightarrow> nat" where
  "get_tree_depth element current_depth =
     (if findChildren element = [] then current_depth
      else py_max (map (\<lambda>child. get_tree_depth child (current_depth + 1))
                       (findChildren element)))"
  by pat_completeness auto
termination
proof (relation "measure (\<lambda>(element, current_depth). size element)")
  show "wf (measure (\<lambda>(element, current_depth). size element))"
    by simp
next
  fix element :: node and current_depth :: nat and child :: node
  assume child: "child \<in> set (findChildren element)"
  have below: "x \<in> set (tags_of n) \<Longrightarrow> size x \<le> size n" for x n
  proof (induction n arbitrary: x)
    case (Tag nm attrs cs)
    from Tag.prems have "x = Tag nm attrs cs \<or> (\<exists>c \<in> set cs. x \<in> set (tags_of c))"
      by auto
    then show ?case
    proof
      assume "x = Tag nm attrs cs"
      then show ?thesis by simp
    next
      assume "\<exists>c \<in> set cs. x \<in> set (tags_of c)"
      then obtain c where c: "c \<in> set cs" "x \<in> set (tags_of c)" by blast
      from Tag.IH [OF c] have "size x \<le> size c" .
      moreover from c(1) have "size c \<le> size_list size cs"
        by (simp add: size_list_estimation')
      ultimately show ?thesis by simp
    qed
  next
    case (Text s)
    then show ?case by simp
  qed
  have "size child < size element"
  proof (cases element)
    case (Tag nm attrs cs)
    with child obtain c where c: "c \<in> set cs" "child \<in> set (tags_of c)" by auto
    from below [OF c(2)] have "size child \<le> size c" .
    moreover from c(1) have "size c \<le> size_list size cs"
      by (simp add: size_list_estimation')
    ultimately show ?thesis using Tag by simp
  next
    case (Text s)
    with child show ?thesis by simp
  qed
  then show "((child, current_depth + 1), (element, current_depth))
      \<in> measure (\<lambda>(element, current_depth). size element)"
    by simp
qed

text \<open>
  The returned dict, without \<^verbatim>\<open>average_children_per_node\<close> (a float mean that no
  other entry reads). A \<^verbatim>\<open>Tag\<close> is always true, so \<^verbatim>\<open>if soup.html\<close> asks whether
  the document has an \<^verbatim>\<open>html\<close> element.
\<close>

record dom_complexity =
  total_elements :: nat
  max_depth :: nat
  leaf_nodes :: nat
  branch_nodes :: nat
  complexity_score :: nat

definition calculate_dom_complexity :: "soup \<Rightarrow> dom_complexity" where
  "calculate_dom_complexity sp =
     (let all_elements = find_all sp in
      \<lparr>total_elements = length all_elements,
       max_depth = (case find_named ''html'' sp of
                      Some html \<Rightarrow> get_tree_depth html 0 | None \<Rightarrow> 0),
       leaf_nodes = length (filter (\<lambda>e. findChildren e = []) all_elements),
       branch_nodes = length (filter (\<lambda>e. findChildren e \<noteq> []) all_elements),
       complexity_score =
         length all_elements *
           (case find_named ''html'' sp of
              Some html \<Rightarrow> get_tree_depth html 0 | None \<Rightarrow> 1)\<rparr>)"

section \<open>ID analyzer (comprehensive\_analyzer.py, analyze\_ids\_comprehensive)\<close>

text \<open>
  The \<^verbatim>\<open>analysis\<close> dict: the two counting dicts as maps, the set \<^verbatim>\<open>unique_ids\<close> as a
  set, the list of id lengths. The regular-expression tallies of
  \<^verbatim>\<open>id_format_analysis\<close> and the summary \<^verbatim>\<open>id_statistics\<close> are computed from the id
  alone and from the entries kept here, and are left out.
\<close>

record id_analysis =
  id_usage :: "string \<rightharpoonup> nat"
  duplicate_ids :: "string \<rightharpoonup> nat"
  unique_ids :: "string set"
  elements_with_ids :: nat
  elements_without_ids :: nat
  id_length_stats :: "nat list"

definition id_analysis_init :: id_analysis where
  "id_analysis_init =
     \<lparr>id_usage = Map.empty, duplicate_ids = Map.empty, unique_ids = {},
      elements_with_ids = 0, elements_without_ids = 0, id_length_stats = []\<rparr>"

text \<open>
  \<^verbatim>\<open>if k not in d: d[k] = v0\<close> followed by \<^verbatim>\<open>d[k] += 1\<close>. The increment finds the
  key, which the statement before it has just stored when it was absent.
\<close>

definition set_default :: "(string \<rightharpoonup> nat) \<Rightarrow> string \<Rightarrow> nat \<Rightarrow> (string \<rightharpoonup> nat)" where
  "set_default d k v0 = (if k \<notin> dom d then d(k \<mapsto> v0) else d)"

definition increment :: "(string \<rightharpoonup> nat) \<Rightarrow> string \<Rightarrow> (string \<rightharpoonup> nat)" where
  "increment d k = (case d k of None \<Rightarrow> d | Some n \<Rightarrow> d(k \<mapsto> n + 1))"

text \<open>The body of \<^verbatim>\<open>if element_id:\<close>, for an id that is present and not empty.\<close>

definition id_seen :: "id_analysis \<Rightarrow> string \<Rightarrow> id_analysis" where
  "id_seen an element_id =
     (let an = an\<lparr>elements_with_ids := elements_with_ids an + 1\<rparr>;
          an = (if element_id \<in> unique_ids an
                then an\<lparr>duplicate_ids :=
                          increment (set_default (duplicate_ids an) element_id 1) element_id\<rparr>
                else an\<lparr>unique_ids := insert element_id (unique_ids an)\<rparr>);
          an = an\<lparr>id_usage := increment (set_default (id_usage an) element_id 0) element_id\<rparr>
      in an\<lparr>id_length_stats := id_length_stats an @ [length element_id]\<rparr>)"

text \<open>The loop body: \<^verbatim>\<open>element.get('id')\<close> is false when absent and when empty.\<close>

definition id_step :: "id_analysis \<Rightarrow> node \<Rightarrow> id_analysis" where
  "id_step an element =
     (if truthy (get_attr element ''id'')
      then id_seen an (case get_attr element ''id'' of Some i \<Rightarrow> i | None \<Rightarrow> [])
      else an\<lparr>elements_without_ids := elements_without_ids an + 1\<rparr>)"

text \<open>
  The analyzer. Its last statement turns the set \<^verbatim>\<open>unique_ids\<close> into a list of the same
  elements in an order Python does not fix; the set is kept.
\<close>

definition analyze_ids_comprehensive :: "soup option \<Rightarrow> id_analysis" where
  "analyze_ids_comprehensive self_soup =
     (case self_soup of
        None \<Rightarrow> id_analysis_init
      | Some sp \<Rightarrow> foldl id_step id_analysis_init (find_all sp))"

text \<open>The non-empty \<^verbatim>\<open>id\<close> values of a document, in document order.\<close>

definition ids_of :: "node list \<Rightarrow> string list" where
  "ids_of es =
     map (\<lambda>e. case get_attr e ''id'' of Some i \<Rightarrow> i | None \<Rightarrow> [])
       (filter (\<lambda>e. truthy (get_attr e ''id'')) es)"

section \<open>Result values and the data-point counter (core\_analyzer.py, count\_total\_statistics)\<close>

text \<open>
  The values an analysis result is made of. A dict is an association list in insertion
  order (its keys are distinct); \<^verbatim>\<open>defaultdict\<close> and \<^verbatim>\<open>Counter\<close> are dicts. A set is
  neither a dict nor a list for \<^verbatim>\<open>isinstance\<close>. A float is kept as the rational number
  it stands for.
\<close>

datatype pyval =
    PDict "(string \<times> pyval) list"
  | PList "pyval list"
  | PSet "pyval list"
  | PStr string
  | PInt int
  | PFloat rat
  | PBool bool
  | PNone

text \<open>
  \<^verbatim>\<open>count_total_statistics(obj, count)\<close>: the two \<^verbatim>\<open>for\<close> loops thread \<^verbatim>\<open>count\<close>
  through the recursive calls.
\<close>

fun count_total_statistics :: "pyval \<Rightarrow> nat \<Rightarrow> nat" where
  "count_total_statistics (PDict kvs) count =
     foldl (\<lambda>count v. count_total_statistics v count) (count + length kvs) (map snd kvs)"
| "count_total_statistics (PList items) count =
     foldl (\<lambda>count item. count_total_statistics item count) (count + length items) items"
| "count_total_statistics obj count = count + 1"

text \<open>
  The structural count in the specification's words: for a mapping its key count plus
  the counts of all its values, for a sequence its length plus the counts of all its
  elements, for any other value exactly 1.
\<close>

fun structural_count :: "pyval \<Rightarrow> nat" where
  "structural_count (PDict kvs) =
     length kvs + sum_list (map (\<lambda>kv. structural_count (snd kv)) kvs)"
| "structural_count (PList items) = length items + sum_list (map structural_count items)"
| "structural_count obj = 1"

text \<open>Reading a dict: its keys, \<^verbatim>\<open>d.get(k)\<close>, a path of keys, and the dict without one key.\<close>

fun dict_keys :: "pyval \<Rightarrow> string list" where
  "dict_keys (PDict kvs) = map fst kvs"
| "dict_keys obj = []"

fun dict_get :: "pyval \<Rightarrow> string \<Rightarrow> pyval option" where
  "dict_get (PDict kvs) k = map_of kvs k"
| "dict_get obj k = None"

fun dict_path :: "pyval \<Rightarrow> string list \<Rightarrow> pyval option" where
  "dict_path obj [] = Some obj"
| "dict_path obj (k # ks) =
     (case dict_get obj k of None \<Rightarrow> None | Some v \<Rightarrow> dict_path v ks)"

fun dict_without :: "string \<Rightarrow> pyval \<Rightarrow> pyval" where
  "dict_without k (PDict kvs) = PDict (filter (\<lambda>kv. fst kv \<noteq> k) kvs)"
| "dict_without k obj = obj"

section \<open>The entry point of the core analyzer (core\_analyzer.py, generate\_comprehensive\_analysis)\<close>

text \<open>
  What \<^verbatim>\<open>fetch_single_user_agent\<close> returns on success; on any exception of the request
  (timeout, connection error, the \<^verbatim>\<open>raise_for_status\<close> of a non-2xx answer) it returns
  \<^verbatim>\<open>None\<close>. The fetch itself is outside the functions modelled here: its outcome is an
  argument.
\<close>

record response_data =
  status_code :: int
  content_length :: nat
  rd_headers :: headers
  response_time :: rat
  html :: string
  rd_soup :: soup

text \<open>
  The seven analyzer methods the entry point calls, each as the function from its
  arguments to the dict it returns, and the readings of the clock
  (\<^verbatim>\<open>time.time()\<close> before and after, \<^verbatim>\<open>time.strftime\<close>). The entry point does not
  look into the analyzers' dicts except to count them.
\<close>

record analyzers =
  dom_complexity_dict :: "soup \<Rightarrow> pyval"
  css_analysis_dict :: "soup \<Rightarrow> pyval"
  javascript_analysis_dict :: "soup \<Rightarrow> pyval"
  performance_metrics_dict :: "soup \<Rightarrow> response_data \<Rightarrow> pyval"
  seo_signals_dict :: "soup \<Rightarrow> pyval"
  accessibility_dict :: "soup \<Rightarrow> pyval"
  security_dict :: "headers \<Rightarrow> pyval"

record clock =
  start_time :: rat
  end_time :: rat
  timestamp :: string

definition all_stats :: "analyzers \<Rightarrow> string \<Rightarrow> string \<Rightarrow> response_data \<Rightarrow> (string \<times> pyval) list" where
  "all_stats an url user_agent rd =
     (let sp = rd_soup rd in
      [(''url'', PStr url),
       (''user_agent_used'', PStr user_agent),
       (''fetch_info'', PDict
          [(''status_code'', PInt (status_code rd)),
           (''content_length'', PInt (int (content_length rd))),
           (''response_time'', PFloat (response_time rd))]),
       (''dom_complexity'', dom_complexity_dict an sp),
       (''css_analysis'', css_analysis_dict an sp),
       (''javascript_analysis'', javascript_analysis_dict an sp),
       (''performance_metrics'', performance_metrics_dict an sp rd),
       (''seo_signals'', seo_signals_dict an sp),
       (''accessibility'', accessibility_dict an sp),
       (''security'', security_dict an (rd_headers rd))])"

text \<open>
  The dict literal of \<^verbatim>\<open>meta_statistics\<close> is evaluated before it is stored under its
  key, so the counter and the key filter see \<^verbatim>\<open>all_stats\<close> without it.
\<close>

definition meta_statistics :: "clock \<Rightarrow> (string \<times> pyval) list \<Rightarrow> pyval" where
  "meta_statistics clk stats =
     PDict
       [(''total_data_points'', PInt (int (count_total_statistics (PDict stats) 0))),
        (''analysis_categories'', PInt (int (length (filter
            (\<lambda>k. \<not> (prefix ''url'' k \<or> prefix ''user_agent'' k \<or> prefix ''meta_'' k))
            (map fst stats))))),
        (''processing_time'', PFloat (end_time clk - start_time clk)),
        (''timestamp'', PStr (timestamp clk))]"

definition generate_comprehensive_analysis ::
  "analyzers \<Rightarrow> clock \<Rightarrow> string \<Rightarrow> string \<Rightarrow> response_data option \<Rightarrow> pyval" where
  "generate_comprehensive_analysis an clk url user_agent fetched =
     (case fetched of
        None \<Rightarrow>
          PDict [(''error'', PStr (''Failed to fetch page with '' @ user_agent)),
                 (''url'', PStr url),
                 (''timestamp'', PStr (timestamp clk))]
      | Some rd \<Rightarrow>
          (let stats = all_stats an url user_agent rd
           in PDict (stats @ [(''meta_statistics'', meta_statistics clk stats)])))"

section \<open>The entry point of the comprehensive analyzer (comprehensive\_analyzer.py)\<close>

text \<open>
  What \<^verbatim>\<open>fetch_page\<close> stores in the object when it succeeds; it returns \<^verbatim>\<open>False\<close> on
  any exception of the request. The fourteen analyzer methods read the object, so each
  is a function of the page; \<open>statistics_counted\<close> is the number of
  \<^verbatim>\<open>_count_statistic\<close> calls they make together.
\<close>

record page =
  page_response_time :: rat
  html_content :: string
  response_headers_count :: nat
  page_soup :: soup

record comprehensive_analyzers =
  element_analysis :: "page \<Rightarrow> pyval"
  attribute_analysis :: "page \<Rightarrow> pyval"
  class_analysis :: "page \<Rightarrow> pyval"
  id_analysis_dict :: "page \<Rightarrow> pyval"
  link_analysis :: "page \<Rightarrow> pyval"
  image_analysis_dict :: "page \<Rightarrow> pyval"
  script_analysis :: "page \<Rightarrow> pyval"
  network_analysis :: "page \<Rightarrow> pyval"
  page_structure :: "page \<Rightarrow> pyval"
  css_analysis :: "page \<Rightarrow> pyval"
  form_analysis :: "page \<Rightarrow> pyval"
  accessibility_analysis :: "page \<Rightarrow> pyval"
  seo_analysis :: "page \<Rightarrow> pyval"
  security_analysis :: "page \<Rightarrow> pyval"
  statistics_counted :: "page \<Rightarrow> nat"

definition comprehensive_data ::
  "comprehensive_analyzers \<Rightarrow> string \<Rightarrow> page \<Rightarrow> (string \<times> pyval) list" where
  "comprehensive_data an url pg =
     [(''url'', PStr url),
      (''fetch_info'', PDict
         [(''response_time'', PFloat (page_response_time pg)),
          (''content_length'', PInt (int (length (html_content pg)))),
          (''response_headers_count'', PInt (int (response_headers_count pg)))]),
      (''element_analysis'', element_analysis an pg),
      (''attribute_analysis'', attribute_analysis an pg),
      (''class_analysis'', class_analysis an pg),
      (''id_analysis'', id_analysis_dict an pg),
      (''link_analysis'', link_analysis an pg),
      (''image_analysis'', image_analysis_dict an pg),
      (''script_analysis'', script_analysis an pg),
      (''network_analysis'', network_analysis an pg),
      (''page_structure'', page_structure an pg),
      (''css_analysis'', css_analysis an pg),
      (''form_analysis'', form_analysis an pg),
      (''accessibility_analysis'', accessibility_analysis an pg),
      (''seo_analysis'', seo_analysis an pg),
      (''security_analysis'', security_analysis an pg)]"

text \<open>
  \<^verbatim>\<open>meta_analysis\<close>: the hand-incremented counter after two more increments, and the
  number of keys that end in \<^verbatim>\<open>_analysis\<close> or are \<^verbatim>\<open>page_structure\<close>.
\<close>

definition meta_analysis ::
  "comprehensive_analyzers \<Rightarrow> clock \<Rightarrow> page \<Rightarrow> (string \<times> pyval) list \<Rightarrow> pyval" where
  "meta_analysis an clk pg cdata =
     PDict
       [(''total_statistics_generated'', PInt (int (statistics_counted an pg + 2))),
        (''processing_time'', PFloat (end_time clk - start_time clk)),
        (''analysis_timestamp'', PStr (timestamp clk)),
        (''analysis_categories'', PInt (int (length (filter
            (\<lambda>k. suffix ''_analysis'' k \<or> k = ''page_structure'') (map fst cdata))))),
        (''analyzer_version'', PStr ''1.0.0'')]"

definition comprehensive_generate_comprehensive_analysis ::
  "comprehensive_analyzers \<Rightarrow> clock \<Rightarrow> string \<Rightarrow> page option \<Rightarrow> pyval" where
  "comprehensive_generate_comprehensive_analysis an clk url fetched =
     (case fetched of
        None \<Rightarrow> PDict [(''error'', PStr ''Failed to fetch page''), (''url'', PStr url)]
      | Some pg \<Rightarrow>
          (let cdata = comprehensive_data an url pg
           in PDict (cdata @ [(''meta_analysis'', meta_analysis an clk pg cdata)])))"

text \<open>Analyzers that return empty dicts, and a clock, for evaluating the entry points.\<close>

definition empty_analyzers :: analyzers where
  "empty_analyzers =
     \<lparr>dom_complexity_dict = (\<lambda>sp. PDict []),
      css_analysis_dict = (\<lambda>sp. PDict []),
      javascript_analysis_dict = (\<lambda>sp. PDict []),
      performance_metrics_dict = (\<lambda>sp rd. PDict []),
      seo_signals_dict = (\<lambda>sp. PDict []),
      accessibility_dict = (\<lambda>sp. PDict []),
      security_dict = (\<lambda>h. PDict [])\<rparr>"

definition sample_clock :: clock where
  "sample_clock = \<lparr>start_time = 0, end_time = 1, timestamp = ''2024-01-01 00:00:00''\<rparr>"

section \<open>Link analyzer (comprehensive\_analyzer.py, analyze\_links\_comprehensive)\<close>

text \<open>
  \<^verbatim>\<open>self.parsed_url = urlparse(url)\<close>, of which the analyzers read the scheme and the
  network location, and the library functions applied to a resolved URL:
  \<^verbatim>\<open>urlparse(u).scheme\<close>, \<^verbatim>\<open>urlparse(u).netloc\<close> and
  \<^verbatim>\<open>tldextract.extract(u).registered_domain\<close>. The libraries are not part of the
  repository; their functions are arguments.
\<close>

record parsed_url =
  scheme :: string
  netloc :: string

record url_library =
  url_scheme :: "string \<Rightarrow> string"
  url_netloc :: "string \<Rightarrow> string"
  registered_domain :: "string \<Rightarrow> string"

text \<open>\<^verbatim>\<open>s.startswith((p1, ..., pn))\<close>\<close>

definition startswith_any :: "string list \<Rightarrow> string \<Rightarrow> bool" where
  "startswith_any ps s = list_ex (\<lambda>p. prefix p s) ps"

text \<open>
  The statements under \<^verbatim>\<open># Resolve relative URLs\<close>: a protocol-relative href gets the
  literal prefix \<^verbatim>\<open>https:\<close>, a root-relative one the scheme and network location of
  the analyzed URL.
\<close>

definition resolve_link :: "parsed_url \<Rightarrow> string \<Rightarrow> string" where
  "resolve_link pu href =
     (if prefix ''//'' href then ''https:'' @ href
      else if prefix ''/'' href then scheme pu @ ''://'' @ netloc pu @ href
      else href)"

text \<open>
  The lists and the protocol tally of the \<^verbatim>\<open>analysis\<close> dict. Every list keeps one
  string per link: the resolved URL for the navigable links, the href for the others
  (the further entries of the per-link dicts, and \<^verbatim>\<open>file_links\<close>,
  \<^verbatim>\<open>link_attributes\<close> and \<^verbatim>\<open>link_text_analysis\<close>, are left out).
\<close>

record link_analysis_state =
  internal_links :: "string list"
  external_links :: "string list"
  same_domain_links :: "string list"
  subdomain_links :: "string list"
  protocol_analysis :: "string \<rightharpoonup> nat"
  anchor_links :: "string list"
  email_links :: "string list"
  phone_links :: "string list"

definition link_analysis_init :: link_analysis_state where
  "link_analysis_init =
     \<lparr>internal_links = [], external_links = [], same_domain_links = [],
      subdomain_links = [], protocol_analysis = Map.empty, anchor_links = [],
      email_links = [], phone_links = []\<rparr>"

text \<open>
  What the loop does with the resolved URL \<^verbatim>\<open>full_url\<close>: the protocol tally and the
  classification by domain.
\<close>

definition classify_link ::
  "url_library \<Rightarrow> parsed_url \<Rightarrow> string \<Rightarrow> link_analysis_state \<Rightarrow> string \<Rightarrow> link_analysis_state"
where
  "classify_link lib pu base_domain an full_url =
     (let protocol = url_scheme lib full_url;
          an = an\<lparr>protocol_analysis :=
                    increment (set_default (protocol_analysis an) protocol 0) protocol\<rparr>
      in if url_netloc lib full_url = netloc pu
         then an\<lparr>same_domain_links := same_domain_links an @ [full_url],
                 internal_links := internal_links an @ [full_url]\<rparr>
         else if registered_domain lib full_url = base_domain
         then an\<lparr>subdomain_links := subdomain_links an @ [full_url]\<rparr>
         else an\<lparr>external_links := external_links an @ [full_url]\<rparr>)"

text \<open>The loop body for one \<^verbatim>\<open>a\<close> element; \<^verbatim>\<open>href = link['href'].strip()\<close>.\<close>

definition link_step ::
  "url_library \<Rightarrow> parsed_url \<Rightarrow> string \<Rightarrow> link_analysis_state \<Rightarrow> node \<Rightarrow> link_analysis_state"
where
  "link_step lib pu base_domain an link =
     (let href = py_strip (case get_attr link ''href'' of Some h \<Rightarrow> h | None \<Rightarrow> []) in
      if prefix ''#'' href then an\<lparr>anchor_links := anchor_links an @ [href]\<rparr>
      else if prefix ''mailto:'' href then an\<lparr>email_links := email_links an @ [href]\<rparr>
      else if prefix ''tel:'' href then an\<lparr>phone_links := phone_links an @ [href]\<rparr>
      else if startswith_any [''http://'', ''https://'', ''//'', ''/''] href
      then classify_link lib pu base_domain an (resolve_link pu href)
      else an)"

text \<open>\<^verbatim>\<open>links = self.soup.find_all('a', href=True)\<close>\<close>

definition analyze_links_comprehensive ::
  "url_library \<Rightarrow> parsed_url \<Rightarrow> string \<Rightarrow> soup option \<Rightarrow> link_analysis_state" where
  "analyze_links_comprehensive lib pu base_domain self_soup =
     (case self_soup of
        None \<Rightarrow> link_analysis_init
      | Some sp \<Rightarrow>
          foldl (link_step lib pu base_domain) link_analysis_init
            (filter (\<lambda>e. get_attr e ''href'' \<noteq> None) (find_all_named ''a'' sp)))"

section \<open>Network analyzer (comprehensive\_analyzer.py, analyze\_network\_comprehensive)\<close>

text \<open>The statements under \<^verbatim>\<open># Clean and parse URL\<close>.\<close>

definition resolve_resource :: "parsed_url \<Rightarrow> string \<Rightarrow> string" where
  "resolve_resource pu url =
     (if prefix ''//'' url then ''https:'' @ url
      else if prefix ''/'' url then scheme pu @ ''://'' @ netloc pu @ url
      else url)"

definition resource_elements :: "(string \<times> string) list" where
  "resource_elements =
     [(''script'', ''src''), (''link'', ''href''), (''img'', ''src''), (''iframe'', ''src''),
      (''source'', ''src''), (''embed'', ''src''), (''object'', ''data''), (''video'', ''src''),
      (''audio'', ''src'')]"

text \<open>
  The two sets and the two tallies that every resource URL is entered in (the
  subdomain, service, CDN and tracking-pixel detection and the security summary read
  the same resolved URL and are left out).
\<close>

record network_analysis_state =
  all_external_urls :: "string set"
  domains_contacted :: "string set"
  protocols_used :: "string \<rightharpoonup> nat"
  resource_types :: "string \<rightharpoonup> nat"

definition network_analysis_init :: network_analysis_state where
  "network_analysis_init =
     \<lparr>all_external_urls = {}, domains_contacted = {}, protocols_used = Map.empty,
      resource_types = Map.empty\<rparr>"

definition record_resource ::
  "url_library \<Rightarrow> string \<Rightarrow> network_analysis_state \<Rightarrow> string \<Rightarrow> network_analysis_state" where
  "record_resource lib tag an url =
     (let protocol = url_scheme lib url in
      an\<lparr>all_external_urls := insert url (all_external_urls an),
         domains_contacted := insert (url_netloc lib url) (domains_contacted an),
         protocols_used := increment (set_default (protocols_used an) protocol 0) protocol,
         resource_types := increment (set_default (resource_types an) tag 0) tag\<rparr>)"

text \<open>The body of the inner loop for one element and the attribute that holds its URL.\<close>

definition resource_step ::
  "url_library \<Rightarrow> parsed_url \<Rightarrow> string \<Rightarrow> string \<Rightarrow> network_analysis_state \<Rightarrow> node
     \<Rightarrow> network_analysis_state" where
  "resource_step lib pu tag attr an element =
     (if truthy (get_attr element attr)
      then (let url = resolve_resource pu
                        (case get_attr element attr of Some u \<Rightarrow> u | None \<Rightarrow> [])
            in if startswith_any [''http://'', ''https://''] url
               then record_resource lib tag an url
               else an)
      else an)"

definition analyze_network_comprehensive ::
  "url_library \<Rightarrow> parsed_url \<Rightarrow> soup option \<Rightarrow> network_analysis_state" where
  "analyze_network_comprehensive lib pu self_soup =
     (case self_soup of
        None \<Rightarrow> network_analysis_init
      | Some sp \<Rightarrow>
          foldl (\<lambda>an (tag, attr).
                   foldl (resource_step lib pu tag attr) an
                     (filter (\<lambda>e. get_attr e attr \<noteq> None) (find_all_named tag sp)))
            network_analysis_init resource_elements)"

text \<open>
  A stand-in for the URL library on URLs of the shape \<^verbatim>\<open>scheme://host/path\<close>, for
  evaluating the analyzers: the scheme is the text before the first colon, the network
  location the text between \<^verbatim>\<open>//\<close> and the next slash, and the registered domain is
  taken to be the network location.
\<close>

definition simple_scheme :: "string \<Rightarrow> string" where
  "simple_scheme u = takeWhile (\<lambda>c. c \<noteq> CHR '':'') u"

definition simple_netloc :: "string \<Rightarrow> string" where
  "simple_netloc u =
     takeWhile (\<lambda>c. c \<noteq> CHR ''/'') (drop 3 (dropWhile (\<lambda>c. c \<noteq> CHR '':'') u))"

definition simple_library :: url_library where
  "simple_library =
     \<lparr>url_scheme = simple_scheme, url_netloc = simple_netloc,
      registered_domain = simple_netloc\<rparr>"

section \<open>SEO analyzer (core\_analyzer.py, analyze\_seo\_signals)\<close>

text \<open>
  The exceptions the statements modelled below can raise. \<^verbatim>\<open>JSONDecodeError\<close> is a
  subclass of \<^verbatim>\<open>ValueError\<close>: a handler for \<^verbatim>\<open>ValueError\<close> catches both, a handler
  for \<^verbatim>\<open>JSONDecodeError\<close> only the first.
\<close>

datatype py_error =
    JSONDecodeError | ValueError | TypeError | KeyError
  | IndexError | StatisticsError | RecursionError

text \<open>
  The functions of libraries that the analyzer calls on the document's text:
  \<^verbatim>\<open>json.loads\<close> with the value it returns or the exception it raises (a
  \<^verbatim>\<open>JSONDecodeError\<close> on text that is not JSON, and also a \<^verbatim>\<open>RecursionError\<close> on text
  nested too deeply and a plain \<^verbatim>\<open>ValueError\<close> on an integer literal of more digits than
  the interpreter converts), \<^verbatim>\<open>str.istitle\<close>, and \<^verbatim>\<open>soup.get_text()\<close>. They are not
  part of the repository and are arguments.
\<close>

record seo_library =
  lib_json_loads :: "string \<Rightarrow> py_error + pyval"
  lib_istitle :: "string \<Rightarrow> bool"
  lib_get_text :: "soup \<Rightarrow> string"

text \<open>
  \<^verbatim>\<open>tag.string\<close>: the text of a tag whose only child is a string, or the \<^verbatim>\<open>.string\<close>
  of its only child; \<^verbatim>\<open>None\<close> for a tag with no child or with several.
\<close>

fun node_string :: "node \<Rightarrow> string option" where
  "node_string (Text s) = Some s"
| "node_string (Tag n attrs [c]) = node_string c"
| "node_string (Tag n attrs cs) = None"

text \<open>
  \<^verbatim>\<open>s.split()\<close>: the maximal runs of characters that are not whitespace, in order;
  \<open>cur\<close> is the run being read.
\<close>

fun split_words :: "string \<Rightarrow> string \<Rightarrow> string list" where
  "split_words cur [] = (if cur = [] then [] else [cur])"
| "split_words cur (c # cs) =
     (if py_isspace c
      then (if cur = [] then split_words [] cs else cur # split_words [] cs)
      else split_words (cur @ [c]) cs)"

definition py_split :: "string \<Rightarrow> string list" where
  "py_split s = split_words [] s"

subsection \<open>Title\<close>

text \<open>
  The entry \<^verbatim>\<open>'brand_position'\<close>:
  \<^verbatim>\<open>'end' if title_text and title_text.split()[-1].istitle() else 'unknown'\<close>.
  The index \<^verbatim>\<open>[-1]\<close> raises \<^verbatim>\<open>IndexError\<close> on an empty list.
\<close>

definition brand_position_of :: "(string \<Rightarrow> bool) \<Rightarrow> string \<Rightarrow> py_error + string" where
  "brand_position_of istitle title_text =
     (if title_text \<noteq> []
      then (case py_split title_text of
              [] \<Rightarrow> Inl IndexError
            | w # ws \<Rightarrow> Inr (if istitle (last (w # ws)) then ''end'' else ''unknown''))
      else Inr ''unknown'')"

text \<open>
  \<^verbatim>\<open>seo['title']\<close>: \<open>None\<close> stands for \<^verbatim>\<open>{'exists': False}\<close>. The entries of the dict
  literal are evaluated in order, and only the last one can raise.
\<close>

record title_info =
  title_text :: string
  title_length :: nat
  title_words :: nat
  title_optimal :: bool
  pipe_separated :: bool
  dash_separated :: bool
  brand_position :: string

definition analyze_title :: "(string \<Rightarrow> bool) \<Rightarrow> soup \<Rightarrow> py_error + title_info option" where
  "analyze_title istitle sp =
     (case find_named ''title'' sp of
        None \<Rightarrow> Inr None
      | Some title \<Rightarrow>
          (let text = (case node_string title of Some s \<Rightarrow> s | None \<Rightarrow> []) in
           case brand_position_of istitle text of
             Inl e \<Rightarrow> Inl e
           | Inr bp \<Rightarrow>
               Inr (Some \<lparr>title_text = text,
                          title_length = length text,
                          title_words = length (py_split text),
                          title_optimal = (30 \<le> length text \<and> length text \<le> 60),
                          pipe_separated = (CHR ''|'' \<in> set text),
                          dash_separated = (CHR ''-'' \<in> set text),
                          brand_position = bp\<rparr>)))"

subsection \<open>Structured data\<close>

text \<open>
  \<^verbatim>\<open>key in data\<close> and \<^verbatim>\<open>data[key]\<close> for a string key and a value that
  \<^verbatim>\<open>json.loads\<close> returned: a dict is asked for the key, a list for an equal element,
  a string for a substring; a number, a boolean and \<^verbatim>\<open>None\<close> are not iterable.
  Subscripting a list or a string with a string, or any other value at all, is a
  \<^verbatim>\<open>TypeError\<close>.
\<close>

fun py_contains :: "string \<Rightarrow> pyval \<Rightarrow> py_error + bool" where
  "py_contains k (PDict kvs) = Inr (k \<in> set (map fst kvs))"
| "py_contains k (PList items) = Inr (PStr k \<in> set items)"
| "py_contains k (PSet items) = Inr (PStr k \<in> set items)"
| "py_contains k (PStr s) = Inr (sublist k s)"
| "py_contains k obj = Inl TypeError"

fun py_getitem :: "pyval \<Rightarrow> string \<Rightarrow> py_error + pyval" where
  "py_getitem (PDict kvs) k = (case map_of kvs k of None \<Rightarrow> Inl KeyError | Some v \<Rightarrow> Inr v)"
| "py_getitem obj k = Inl TypeError"

text \<open>The body of the \<^verbatim>\<open>try\<close>: the new \<^verbatim>\<open>schema_types\<close>, or the exception raised.\<close>

definition schema_try ::
  "(string \<Rightarrow> py_error + pyval) \<Rightarrow> pyval list \<Rightarrow> node \<Rightarrow> py_error + pyval list" where
  "schema_try json_loads schema_types script =
     (if truthy (node_string script)
      then (case json_loads (case node_string script of Some s \<Rightarrow> s | None \<Rightarrow> []) of
              Inl e \<Rightarrow> Inl e
            | Inr data \<Rightarrow>
                (case py_contains ''@type'' data of
                   Inl e \<Rightarrow> Inl e
                 | Inr False \<Rightarrow> Inr schema_types
                 | Inr True \<Rightarrow>
                     (case py_getitem data ''@type'' of
                        Inl e \<Rightarrow> Inl e
                      | Inr v \<Rightarrow> Inr (schema_types @ [v]))))
      else Inr schema_types)"

text \<open>
  \<^verbatim>\<open>except (json.JSONDecodeError, TypeError): pass\<close>: these two exceptions leave
  \<^verbatim>\<open>schema_types\<close> as it was, any other one leaves the loop and the analyzer.
\<close>

definition schema_step ::
  "(string \<Rightarrow> py_error + pyval) \<Rightarrow> pyval list \<Rightarrow> node \<Rightarrow> py_error + pyval list" where
  "schema_step json_loads schema_types script =
     (case schema_try json_loads schema_types script of
        Inl JSONDecodeError \<Rightarrow> Inr schema_types
      | Inl TypeError \<Rightarrow> Inr schema_types
      | Inl e \<Rightarrow> Inl e
      | Inr types \<Rightarrow> Inr types)"

fun schema_loop ::
  "(string \<Rightarrow> py_error + pyval) \<Rightarrow> pyval list \<Rightarrow> node list \<Rightarrow> py_error + pyval list" where
  "schema_loop json_loads schema_types [] = Inr schema_types"
| "schema_loop json_loads schema_types (script # scripts) =
     (case schema_step json_loads schema_types script of
        Inl e \<Rightarrow> Inl e
      | Inr types \<Rightarrow> schema_loop json_loads types scripts)"

text \<open>
  \<^verbatim>\<open>seo['schema_org']\<close>, from
  \<^verbatim>\<open>soup.find_all('script', type='application/ld+json')\<close>.
\<close>

record schema_org =
  json_ld_count :: nat
  types :: "pyval list"

definition json_ld_scripts :: "soup \<Rightarrow> node list" where
  "json_ld_scripts sp =
     filter (\<lambda>e. get_attr e ''type'' = Some ''application/ld+json'')
       (find_all_named ''script'' sp)"

definition analyze_schema_org ::
  "(string \<Rightarrow> py_error + pyval) \<Rightarrow> soup \<Rightarrow> py_error + schema_org" where
  "analyze_schema_org json_loads sp =
     (case schema_loop json_loads [] (json_ld_scripts sp) of
        Inl e \<Rightarrow> Inl e
      | Inr schema_types \<Rightarrow>
          Inr \<lparr>json_ld_count = length (json_ld_scripts sp), types = schema_types\<rparr>)"

text \<open>A script block whose text \<^verbatim>\<open>json.loads\<close> is given and rejects as not being JSON.\<close>

definition invalid_json_ld :: "(string \<Rightarrow> py_error + pyval) \<Rightarrow> node \<Rightarrow> bool" where
  "invalid_json_ld json_loads script =
     (truthy (node_string script) \<and>
      json_loads (case node_string script of Some s \<Rightarrow> s | None \<Rightarrow> []) = Inl JSONDecodeError)"

subsection \<open>Content quality\<close>

text \<open>
  \<^verbatim>\<open>re.split(r'[.!?]+', text)\<close>: the pieces of \<open>text\<close> between maximal runs of the three
  characters, the empty pieces at both ends included; \<open>cur\<close> is the piece being read.
  The result is never the empty list.
\<close>

definition is_terminator :: "char \<Rightarrow> bool" where
  "is_terminator c = (c = CHR ''.'' \<or> c = CHR ''!'' \<or> c = CHR ''?'')"

function split_sentences :: "string \<Rightarrow> string \<Rightarrow> string list" where
  "split_sentences cur [] = [cur]"
| "split_sentences cur (c # cs) =
     (if is_terminator c
      then cur # split_sentences [] (dropWhile is_terminator cs)
      else split_sentences (cur @ [c]) cs)"
  by pat_completeness auto
termination
proof (relation "measure (\<lambda>(cur, text). length text)")
  show "wf (measure (\<lambda>(cur, text). length text))"
    by simp
next
  fix cur :: string and c :: char and cs :: string
  have "length (dropWhile is_terminator cs) \<le> length cs"
    by (rule length_dropWhile_le)
  then show "(([], dropWhile is_terminator cs), (cur, c # cs))
      \<in> measure (\<lambda>(cur, text). length text)"
    by simp
next
  fix cur :: string and c :: char and cs :: string
  show "((cur @ [c], cs), (cur, c # cs)) \<in> measure (\<lambda>(cur, text). length text)"
    by simp
qed

definition re_split_sentences :: "string \<Rightarrow> string list" where
  "re_split_sentences text = split_sentences [] text"

text \<open>
  \<^verbatim>\<open>statistics.mean\<close> of a list of lengths: it raises \<^verbatim>\<open>StatisticsError\<close> on an empty
  list, and otherwise returns the float nearest to the mean computed here.
\<close>

definition statistics_mean :: "nat list \<Rightarrow> py_error + rat" where
  "statistics_mean xs =
     (if xs = [] then Inl StatisticsError
      else Inr (of_nat (sum_list xs) / of_nat (length xs)))"

text \<open>
  The entries of \<^verbatim>\<open>seo['content_quality']\<close> that are computed from \<^verbatim>\<open>words\<close> and
  \<^verbatim>\<open>sentences\<close> (the element counts and the two ratios cannot raise and are left
  out). The mean of the word lengths is guarded by \<^verbatim>\<open>if words\<close>; the mean of the
  sentence lengths is taken over the sentences that are not blank and guarded by
  \<^verbatim>\<open>if sentences\<close>, the list before that filter.
\<close>

record content_quality =
  word_count :: nat
  unique_words :: nat
  avg_word_length :: rat
  sentence_count :: nat
  avg_sentence_length :: rat

definition analyze_content_quality :: "string \<Rightarrow> py_error + content_quality" where
  "analyze_content_quality text =
     (let words = py_split text;
          sentences = re_split_sentences text;
          kept = filter (\<lambda>s. py_strip s \<noteq> []) sentences
      in case (if words \<noteq> [] then statistics_mean (map length words) else Inr 0) of
           Inl e \<Rightarrow> Inl e
         | Inr awl \<Rightarrow>
             (case (if sentences \<noteq> []
                    then statistics_mean (map (\<lambda>s. length (py_split s)) kept)
                    else Inr 0) of
                Inl e \<Rightarrow> Inl e
              | Inr asl \<Rightarrow>
                  Inr \<lparr>word_count = length words,
                       unique_words = length (remdups words),
                       avg_word_length = awl,
                       sentence_count = length kept,
                       avg_sentence_length = asl\<rparr>))"

subsection \<open>The analyzer\<close>

text \<open>
  The analyzer runs its blocks in the order of the source; an exception that a block
  does not handle ends the analyzer. The blocks between the three kept here (meta
  description, headings, Open Graph, Twitter cards, canonical link, robots) and the
  keyword density after them read attributes and compare strings, cannot raise, and
  are left out.
\<close>

record seo_signals =
  seo_title :: "title_info option"
  seo_schema_org :: schema_org
  seo_content_quality :: content_quality

definition analyze_seo_signals :: "seo_library \<Rightarrow> soup \<Rightarrow> py_error + seo_signals" where
  "analyze_seo_signals lib sp =
     (case analyze_title (lib_istitle lib) sp of
        Inl e \<Rightarrow> Inl e
      | Inr title \<Rightarrow>
          (case analyze_schema_org (lib_json_loads lib) sp of
             Inl e \<Rightarrow> Inl e
           | Inr so \<Rightarrow>
               (case analyze_content_quality (lib_get_text lib sp) of
                  Inl e \<Rightarrow> Inl e
                | Inr cq \<Rightarrow>
                    Inr \<lparr>seo_title = title, seo_schema_org = so,
                         seo_content_quality = cq\<rparr>)))"

section \<open>Keyboard navigation (core\_analyzer.py, analyze\_accessibility\_advanced)\<close>

text \<open>
  The body of the \<^verbatim>\<open>try\<close> in the tabindex loop. The builtin \<^verbatim>\<open>int\<close> is an argument,
  with \<open>None\<close> for the \<^verbatim>\<open>ValueError\<close> it raises on a string that is not an integer
  literal; \<^verbatim>\<open>elem.get('tabindex', 0)\<close> is the integer 0 when the attribute is absent.
\<close>

definition tabindex_try ::
  "(string \<Rightarrow> int option) \<Rightarrow> nat \<Rightarrow> node \<Rightarrow> py_error + nat" where
  "tabindex_try py_int positive_tabindex elem =
     (case get_attr elem ''tabindex'' of
        None \<Rightarrow> Inr positive_tabindex
      | Some v \<Rightarrow>
          (case py_int v of
             None \<Rightarrow> Inl ValueError
           | Some n \<Rightarrow> Inr (if n > 0 then positive_tabindex + 1 else positive_tabindex)))"

text \<open>\<^verbatim>\<open>except (ValueError, TypeError): pass\<close>; a \<^verbatim>\<open>JSONDecodeError\<close> is a \<^verbatim>\<open>ValueError\<close>.\<close>

definition tabindex_step ::
  "(string \<Rightarrow> int option) \<Rightarrow> nat \<Rightarrow> node \<Rightarrow> py_error + nat" where
  "tabindex_step py_int positive_tabindex elem =
     (case tabindex_try py_int positive_tabindex elem of
        Inl ValueError \<Rightarrow> Inr positive_tabindex
      | Inl JSONDecodeError \<Rightarrow> Inr positive_tabindex
      | Inl TypeError \<Rightarrow> Inr positive_tabindex
      | Inl e \<Rightarrow> Inl e
      | Inr n \<Rightarrow> Inr n)"

fun tabindex_loop :: "(string \<Rightarrow> int option) \<Rightarrow> nat \<Rightarrow> node list \<Rightarrow> py_error + nat" where
  "tabindex_loop py_int positive_tabindex [] = Inr positive_tabindex"
| "tabindex_loop py_int positive_tabindex (elem # elems) =
     (case tabindex_step py_int positive_tabindex elem of
        Inl e \<Rightarrow> Inl e
      | Inr n \<Rightarrow> tabindex_loop py_int n elems)"

text \<open>\<^verbatim>\<open>a11y['keyboard_nav']\<close>; \<^verbatim>\<open>find_all(attrs={a: True})\<close> is every tag that has \<open>a\<close>.\<close>

record keyboard_nav =
  tabindex_elements :: nat
  positive_tabindex :: nat
  accesskey_elements :: nat

definition find_all_with :: "string \<Rightarrow> soup \<Rightarrow> node list" where
  "find_all_with a sp = filter (\<lambda>e. get_attr e a \<noteq> None) (find_all sp)"

definition analyze_keyboard_nav :: "(string \<Rightarrow> int option) \<Rightarrow> soup \<Rightarrow> py_error + keyboard_nav" where
  "analyze_keyboard_nav py_int sp =
     (case tabindex_loop py_int 0 (find_all_with ''tabindex'' sp) of
        Inl e \<Rightarrow> Inl e
      | Inr n \<Rightarrow>
          Inr \<lparr>tabindex_elements = length (find_all_with ''tabindex'' sp),
               positive_tabindex = n,
               accesskey_elements = length (find_all_with ''accesskey'' sp)\<rparr>)"

text \<open>An element whose \<^verbatim>\<open>tabindex\<close> the builtin \<^verbatim>\<open>int\<close> reads as a positive integer.\<close>

definition has_positive_tabindex :: "(string \<Rightarrow> int option) \<Rightarrow> node \<Rightarrow> bool" where
  "has_positive_tabindex py_int elem =
     (case get_attr elem ''tabindex'' of
        None \<Rightarrow> False
      | Some v \<Rightarrow> (case py_int v of None \<Rightarrow> False | Some n \<Rightarrow> n > 0))"

text \<open>
  Stand-ins for the library functions, for evaluating the analyzers:
  \<open>decimal_int\<close> reads an optional sign and decimal digits between optional whitespace;
  \<open>sample_json_loads\<close> knows the text of one JSON object and rejects every other text
  as not being JSON; \<open>ascii_istitle\<close> accepts a capital letter followed by small
  letters; \<open>all_strings\<close> is the text of every string of the document in document
  order (versions of the parser library differ in whether \<^verbatim>\<open>get_text\<close> leaves out the
  strings inside \<^verbatim>\<open>script\<close> elements).
\<close>

definition is_digit :: "char \<Rightarrow> bool" where
  "is_digit c = (c \<in> set ''0123456789'')"

definition digits_value :: "string \<Rightarrow> nat" where
  "digits_value ds = foldl (\<lambda>a c. 10 * a + (of_char c - 48)) 0 ds"

definition decimal_int :: "string \<Rightarrow> int option" where
  "decimal_int s =
     (let t = py_strip s;
          neg = prefix ''-'' t;
          ds = (if prefix ''-'' t \<or> prefix ''+'' t then tl t else t)
      in if ds \<noteq> [] \<and> list_all is_digit ds
         then Some (if neg then - int (digits_value ds) else int (digits_value ds))
         else None)"

definition sample_json_loads :: "string \<Rightarrow> py_error + pyval" where
  \<open>sample_json_loads s =
     (if s = ''{"@type": "WebPage"}'' then Inr (PDict [(''@type'', PStr ''WebPage'')])
      else Inl JSONDecodeError)\<close>

definition ascii_istitle :: "string \<Rightarrow> bool" where
  "ascii_istitle s =
     (case s of
        [] \<Rightarrow> False
      | c # cs \<Rightarrow> c \<in> set ''ABCDEFGHIJKLMNOPQRSTUVWXYZ'' \<and>
                 list_all (\<lambda>d. d \<in> set ''abcdefghijklmnopqrstuvwxyz'') cs)"

fun strings_of :: "node \<Rightarrow> string" where
  "strings_of (Text s) = s"
| "strings_of (Tag n attrs cs) = concat (map strings_of cs)"

definition all_strings :: "soup \<Rightarrow> string" where
  "all_strings sp = concat (map strings_of sp)"

definition sample_seo_library :: seo_library where
  "sample_seo_library =
     \<lparr>lib_json_loads = sample_json_loads, lib_istitle = ascii_istitle,
      lib_get_text = all_strings\<rparr>"

chapter \<open>Verified properties\<close>

section \<open>The security score\<close>

lemma actual_score_step:
  "actual_score (score_step h st hi) =
     actual_score st + (if fst hi \<in> dom h then snd hi else 0)"
  by (cases "h (fst hi)") (auto simp: score_step_def)

lemma foldl_score_step_actual:
  "actual_score (foldl (score_step h) st tbl) =
     actual_score st + sum_list (map snd (filter (\<lambda>hi. fst hi \<in> dom h) tbl))"
proof (induction tbl arbitrary: st)
  case Nil
  show ?case by simp
next
  case (Cons hi tbl)
  show ?case
    by (simp only: foldl_Cons Cons.IH actual_score_step) simp
qed

lemma actual_score_loop:
  "actual_score (score_loop h) =
     sum_list (map snd (filter (\<lambda>hi. fst hi \<in> dom h) important_headers))"
  by (simp add: score_loop_def foldl_score_step_actual)

lemma sum_filter_le:
  fixes w :: "'a \<Rightarrow> nat"
  shows "sum_list (map w (filter P xs)) \<le> sum_list (map w xs)"
  by (induction xs) auto

lemma sum_filter_full_iff:
  fixes w :: "'a \<Rightarrow> nat"
  assumes "\<forall>x \<in> set xs. 0 < w x"
  shows "sum_list (map w (filter P xs)) = sum_list (map w xs) \<longleftrightarrow> (\<forall>x \<in> set xs. P x)"
  using assms
proof (induction xs)
  case Nil
  show ?case by simp
next
  case (Cons x xs)
  have le: "sum_list (map w (filter P xs)) \<le> sum_list (map w xs)"
    by (rule sum_filter_le)
  from Cons.prems have pos: "0 < w x" and rest: "\<forall>y \<in> set xs. 0 < w y"
    by simp_all
  show ?case
  proof (cases "P x")
    case True
    with Cons.IH [OF rest] show ?thesis by simp
  next
    case False
    with le pos show ?thesis by simp
  qed
qed

lemma sum_filter_zero_iff:
  fixes w :: "'a \<Rightarrow> nat"
  assumes "\<forall>x \<in> set xs. 0 < w x"
  shows "sum_list (map w (filter P xs)) = 0 \<longleftrightarrow> (\<forall>x \<in> set xs. \<not> P x)"
  using assms by (induction xs) auto

lemma important_headers_positive: "\<forall>hi \<in> set important_headers. 0 < snd hi"
  by (simp add: important_headers_def)

lemma total_possible_score_80: "total_possible_score = 80"
  by (simp add: total_possible_score_def important_headers_def)

lemma security_score_eq:
  "security_score (analyze_security_headers h) =
     of_nat (actual_score (score_loop h)) / 80 * 100"
  by (simp add: analyze_security_headers_def Let_def total_possible_score_80)

lemma header_names_shape: "length header_names = 10 \<and> distinct header_names"
  by (simp add: header_names_def important_headers_def)

text \<open>
  Claim C1. The security score lies between 0 and 100; it is 100 exactly when all ten
  weighted header names are keys of the response-header mapping, and 0 exactly when
  none of them is.
\<close>

theorem security_score_range:
  "0 \<le> security_score (analyze_security_headers h) \<and>
   security_score (analyze_security_headers h) \<le> 100 \<and>
   (security_score (analyze_security_headers h) = 100 \<longleftrightarrow>
      (\<forall>n \<in> set header_names. n \<in> dom h)) \<and>
   (security_score (analyze_security_headers h) = 0 \<longleftrightarrow>
      (\<forall>n \<in> set header_names. n \<notin> dom h))"
proof -
  let ?P = "\<lambda>hi :: string \<times> nat. fst hi \<in> dom h"
  define a where "a = actual_score (score_loop h)"
  have a_sum: "a = sum_list (map snd (filter ?P important_headers))"
    by (simp add: a_def actual_score_loop)
  have tot: "sum_list (map snd important_headers) = 80"
    using total_possible_score_80 by (simp add: total_possible_score_def)
  have a_le: "a \<le> 80"
    using sum_filter_le [of snd ?P important_headers] by (simp add: a_sum tot)
  have full: "a = 80 \<longleftrightarrow> (\<forall>n \<in> set header_names. n \<in> dom h)"
    using sum_filter_full_iff [OF important_headers_positive, of ?P]
    by (simp add: a_sum tot header_names_def)
  have none: "a = 0 \<longleftrightarrow> (\<forall>n \<in> set header_names. n \<notin> dom h)"
    using sum_filter_zero_iff [OF important_headers_positive, of ?P]
    by (simp add: a_sum header_names_def)
  have score: "security_score (analyze_security_headers h) = of_nat a / 80 * 100"
    by (simp add: security_score_eq a_def)
  have hundred: "(of_nat a / 80 * 100 = (100::rat)) \<longleftrightarrow> a = 80"
  proof
    assume "of_nat a / 80 * 100 = (100::rat)"
    then have "(of_nat a :: rat) = of_nat 80" by (simp add: field_simps)
    then show "a = 80" by (simp only: of_nat_eq_iff)
  next
    assume "a = 80"
    then show "of_nat a / 80 * 100 = (100::rat)" by simp
  qed
  have upper: "of_nat a / 80 * 100 \<le> (100::rat)"
  proof -
    have "(of_nat a :: rat) \<le> of_nat 80" using a_le by (simp only: of_nat_le_iff)
    then show ?thesis by (simp add: field_simps)
  qed
  show ?thesis
    unfolding score using upper hundred full none by simp
qed

theorem security_score_range_witness:
  "security_score (analyze_security_headers
      (map_of (map (\<lambda>n. (n, ''1'')) header_names))) = 100 \<and>
   security_score (analyze_security_headers Map.empty) = 0 \<and>
   0 \<le> security_score (analyze_security_headers [''X-Frame-Options'' \<mapsto> ''DENY'']) \<and>
   security_score (analyze_security_headers [''X-Frame-Options'' \<mapsto> ''DENY'']) \<le> 100"
proof -
  have all: "\<forall>n \<in> set header_names. n \<in> dom (map_of (map (\<lambda>n. (n, ''1'')) header_names))"
    by (simp add: dom_map_of_conv_image_fst image_image)
  have none: "\<forall>n \<in> set header_names. n \<notin> dom (Map.empty :: headers)"
    by simp
  show ?thesis
    using all none
      security_score_range [of "map_of (map (\<lambda>n. (n, ''1'')) header_names)"]
      security_score_range [of Map.empty]
      security_score_range [of "[''X-Frame-Options'' \<mapsto> ''DENY'']"]
    by blast
qed

text \<open>
  Claim C10. Two response-header mappings that contain the same ones of the ten
  weighted names as keys get the same security score, whatever the values of the
  headers and whatever other headers are present.
\<close>

theorem security_score_depends_on_names:
  assumes "\<forall>n \<in> set header_names. n \<in> dom h \<longleftrightarrow> n \<in> dom h'"
  shows "security_score (analyze_security_headers h) =
         security_score (analyze_security_headers h')"
proof -
  have "filter (\<lambda>hi. fst hi \<in> dom h) important_headers =
        filter (\<lambda>hi. fst hi \<in> dom h') important_headers"
    using assms by (intro filter_cong) (auto simp: header_names_def)
  then have "actual_score (score_loop h) = actual_score (score_loop h')"
    by (simp add: actual_score_loop)
  then show ?thesis by (simp add: security_score_eq)
qed

theorem security_score_depends_on_names_witness:
  "security_score (analyze_security_headers
      [''X-Frame-Options'' \<mapsto> ''DENY'', ''Server'' \<mapsto> ''nginx'']) =
   security_score (analyze_security_headers [''X-Frame-Options'' \<mapsto> ''SAMEORIGIN''])"
proof -
  have h: "\<forall>n \<in> set header_names.
      n \<in> dom [''X-Frame-Options'' \<mapsto> ''DENY'', ''Server'' \<mapsto> ''nginx''] \<longleftrightarrow>
      n \<in> dom [''X-Frame-Options'' \<mapsto> ''SAMEORIGIN'']"
    by (simp add: header_names_def important_headers_def)
  show ?thesis
    using security_score_depends_on_names [OF h] by simp
qed

section \<open>Alt-text tallies\<close>

lemma py_strip_Nil: "py_strip [] = []"
  by (simp add: py_strip_def)

lemma img_step_alt_fields:
  "with_alt (img_step an img) = with_alt an + (if has_alt img then 1 else 0)"
  "without_alt (img_step an img) = without_alt an + (if has_alt img then 0 else 1)"
  "empty_alt (img_step an img) = empty_alt an + (if stripped_empty_alt img then 1 else 0)"
  "total_images (img_step an img) = total_images an"
  by (auto simp: img_step_def srcset_step_def src_step_def lazy_step_def alt_step_def Let_def
        stripped_empty_alt_def has_alt_def split: option.splits)

lemma foldl_img_step_alt_fields:
  "with_alt (foldl img_step an imgs) = with_alt an + length (filter has_alt imgs)"
  "without_alt (foldl img_step an imgs) =
     without_alt an + length (filter (\<lambda>img. \<not> has_alt img) imgs)"
  "empty_alt (foldl img_step an imgs) = empty_alt an + length (filter stripped_empty_alt imgs)"
  "total_images (foldl img_step an imgs) = total_images an"
  by (induction imgs arbitrary: an) (simp_all add: img_step_alt_fields)

lemma foldl_picture_step_fields:
  "with_alt (foldl picture_step an ps) = with_alt an"
  "without_alt (foldl picture_step an ps) = without_alt an"
  "empty_alt (foldl picture_step an ps) = empty_alt an"
  "total_images (foldl picture_step an ps) = total_images an"
  by (induction ps arbitrary: an) (simp_all add: picture_step_def)

lemma images_alt_fields:
  "with_alt (analyze_images_comprehensive (Some sp)) =
     length (filter has_alt (find_all_named ''img'' sp))"
  "without_alt (analyze_images_comprehensive (Some sp)) =
     length (filter (\<lambda>img. \<not> has_alt img) (find_all_named ''img'' sp))"
  "empty_alt (analyze_images_comprehensive (Some sp)) =
     length (filter stripped_empty_alt (find_all_named ''img'' sp))"
  "total_images (analyze_images_comprehensive (Some sp)) = length (find_all_named ''img'' sp)"
  by (simp_all add: analyze_images_comprehensive_def Let_def foldl_picture_step_fields
        foldl_img_step_alt_fields image_analysis_init_def)

lemma images_alt_fields_None:
  "with_alt (analyze_images_comprehensive None) = 0"
  "without_alt (analyze_images_comprehensive None) = 0"
  "empty_alt (analyze_images_comprehensive None) = 0"
  "total_images (analyze_images_comprehensive None) = 0"
  by (simp_all add: analyze_images_comprehensive_def image_analysis_init_def)

lemma has_alt_fun: "has_alt = (\<lambda>img. get_attr img ''alt'' \<noteq> None)"
  by (rule ext) (simp add: has_alt_def)

lemma a11y_alt_fields:
  "a11y_total_images (analyze_alternative_text sp) = length (find_all_named ''img'' sp)"
  "a11y_with_alt (analyze_alternative_text sp) =
     length (filter has_alt (find_all_named ''img'' sp))"
  "a11y_missing_alt (analyze_alternative_text sp) =
     length (filter (\<lambda>img. \<not> has_alt img) (find_all_named ''img'' sp))"
  "a11y_empty_alt (analyze_alternative_text sp) =
     length (filter (\<lambda>img. get_attr img ''alt'' = Some []) (find_all_named ''img'' sp))"
  by (simp_all add: analyze_alternative_text_def Let_def has_alt_fun)

lemma length_filter_split:
  "length (filter P xs) + length (filter (\<lambda>x. \<not> P x) xs) = length xs"
  by (induction xs) auto

lemma length_filter_mono:
  "(\<And>x. x \<in> set xs \<Longrightarrow> P x \<Longrightarrow> Q x) \<Longrightarrow> length (filter P xs) \<le> length (filter Q xs)"
  by (induction xs) auto

lemma count_state_Missing:
  "count_state Missing imgs = length (filter (\<lambda>img. \<not> has_alt img) imgs)"
  unfolding count_state_def
  by (induction imgs) (auto simp: alt_state_of_def has_alt_def split: option.splits)

lemma count_state_sum:
  "count_state Empty imgs + count_state Present imgs = length (filter has_alt imgs)"
  unfolding count_state_def
  by (induction imgs) (auto simp: alt_state_of_def has_alt_def split: option.splits)

lemma count_state_total:
  "count_state Missing imgs + count_state Empty imgs + count_state Present imgs = length imgs"
  unfolding count_state_def
  by (induction imgs) (auto simp: alt_state_of_def split: option.splits)

lemma stripped_le_has_alt:
  "length (filter stripped_empty_alt imgs) \<le> length (filter has_alt imgs)"
  by (rule length_filter_mono) (auto simp: stripped_empty_alt_def has_alt_def split: option.splits)

lemma empty_le_has_alt:
  "length (filter (\<lambda>img. get_attr img ''alt'' = Some []) imgs) \<le> length (filter has_alt imgs)"
  by (rule length_filter_mono) (auto simp: has_alt_def)

text \<open>
  Claim C4. For the \<^verbatim>\<open>img\<close> elements the image analyzer walks, \<open>with_alt\<close> plus
  \<open>without_alt\<close> is \<open>total_images\<close> and \<open>empty_alt\<close> is at most \<open>with_alt\<close>. The three
  states missing, empty and present partition the images: \<open>without_alt\<close> counts the
  missing ones, \<open>with_alt\<close> the empty and the present ones together, and the three
  counts add up to the number of images. The alt-text tallies of the accessibility
  analyzer satisfy the same two relations.
\<close>

theorem image_alt_tallies:
  "with_alt (analyze_images_comprehensive self_soup)
     + without_alt (analyze_images_comprehensive self_soup)
     = total_images (analyze_images_comprehensive self_soup) \<and>
   empty_alt (analyze_images_comprehensive self_soup)
     \<le> with_alt (analyze_images_comprehensive self_soup) \<and>
   total_images (analyze_images_comprehensive self_soup) = length (images_of self_soup) \<and>
   without_alt (analyze_images_comprehensive self_soup)
     = count_state Missing (images_of self_soup) \<and>
   with_alt (analyze_images_comprehensive self_soup)
     = count_state Empty (images_of self_soup) + count_state Present (images_of self_soup) \<and>
   count_state Missing (images_of self_soup) + count_state Empty (images_of self_soup)
     + count_state Present (images_of self_soup) = length (images_of self_soup) \<and>
   a11y_with_alt (analyze_alternative_text sp) + a11y_missing_alt (analyze_alternative_text sp)
     = a11y_total_images (analyze_alternative_text sp) \<and>
   a11y_empty_alt (analyze_alternative_text sp) \<le> a11y_with_alt (analyze_alternative_text sp)"
proof -
  have core: "a11y_with_alt (analyze_alternative_text sp)
       + a11y_missing_alt (analyze_alternative_text sp)
       = a11y_total_images (analyze_alternative_text sp) \<and>
     a11y_empty_alt (analyze_alternative_text sp) \<le> a11y_with_alt (analyze_alternative_text sp)"
    by (simp add: a11y_alt_fields length_filter_split empty_le_has_alt)
  show ?thesis
  proof (cases self_soup)
    case None
    with core show ?thesis
      by (simp add: images_alt_fields_None images_of_def count_state_def)
  next
    case (Some s)
    let ?imgs = "find_all_named ''img'' s"
    have imgs: "images_of (Some s) = ?imgs"
      by (simp add: images_of_def)
    have tot: "count_state Missing ?imgs + count_state Empty ?imgs + count_state Present ?imgs
        = length ?imgs"
      by (rule count_state_total)
    have split: "length (filter has_alt ?imgs) + length (filter (\<lambda>img. \<not> has_alt img) ?imgs)
        = length ?imgs"
      by (rule length_filter_split)
    have le: "length (filter stripped_empty_alt ?imgs) \<le> length (filter has_alt ?imgs)"
      by (rule stripped_le_has_alt)
    have miss: "count_state Missing ?imgs = length (filter (\<lambda>img. \<not> has_alt img) ?imgs)"
      by (rule count_state_Missing)
    have pres: "count_state Empty ?imgs + count_state Present ?imgs = length (filter has_alt ?imgs)"
      by (rule count_state_sum)
    show ?thesis
      unfolding Some imgs images_alt_fields
      using core tot split le miss pres by simp
  qed
qed

lemma empty_alt_split:
  "length (filter stripped_empty_alt imgs) =
     length (filter (\<lambda>img. get_attr img ''alt'' = Some []) imgs)
     + length (filter whitespace_only_alt imgs)"
  by (induction imgs)
     (auto simp: stripped_empty_alt_def whitespace_only_alt_def py_strip_Nil split: option.splits)

text \<open>
  Claim C9 as stated fails: on an image whose \<^verbatim>\<open>alt\<close> is a single space the
  accessibility analyzer counts no empty alt (it compares \<^verbatim>\<open>alt == ''\<close>) while the
  image analyzer counts one (it compares \<^verbatim>\<open>alt.strip() == ''\<close>).
\<close>

theorem alt_tallies_agree_counterexample:
  "a11y_empty_alt (analyze_alternative_text [Tag ''img'' [(''alt'', '' '')] []]) = 0 \<and>
   empty_alt (analyze_images_comprehensive (Some [Tag ''img'' [(''alt'', '' '')] []])) = 1"
  by code_simp

text \<open>
  Claim C9, amended. On every parsed document the two analyzers agree on the number of
  images, on \<open>with_alt\<close> and on the missing-alt count. The image analyzer's \<open>empty_alt\<close>
  is the accessibility analyzer's \<open>empty_alt\<close> plus the number of images whose
  \<^verbatim>\<open>alt\<close> is not empty and consists of whitespace only, so the two agree on
  \<open>empty_alt\<close> exactly when the document has no such image.
\<close>

theorem alt_tallies_agree_amended:
  "a11y_total_images (analyze_alternative_text sp)
     = total_images (analyze_images_comprehensive (Some sp)) \<and>
   a11y_with_alt (analyze_alternative_text sp)
     = with_alt (analyze_images_comprehensive (Some sp)) \<and>
   a11y_missing_alt (analyze_alternative_text sp)
     = without_alt (analyze_images_comprehensive (Some sp)) \<and>
   empty_alt (analyze_images_comprehensive (Some sp))
     = a11y_empty_alt (analyze_alternative_text sp)
       + length (filter whitespace_only_alt (find_all_named ''img'' sp)) \<and>
   (a11y_empty_alt (analyze_alternative_text sp)
      = empty_alt (analyze_images_comprehensive (Some sp))
    \<longleftrightarrow> (\<forall>img \<in> set (find_all_named ''img'' sp). \<not> whitespace_only_alt img))"
proof -
  have "length (filter whitespace_only_alt (find_all_named ''img'' sp)) = 0
      \<longleftrightarrow> (\<forall>img \<in> set (find_all_named ''img'' sp). \<not> whitespace_only_alt img)"
    by (simp add: filter_empty_conv)
  then show ?thesis
    by (simp add: images_alt_fields a11y_alt_fields empty_alt_split)
qed

theorem alt_tallies_agree_amended_witness:
  "a11y_empty_alt (analyze_alternative_text
      [Tag ''img'' [(''alt'', '''')] [], Tag ''img'' [(''alt'', ''logo'')] [], Tag ''img'' [] []])
   = empty_alt (analyze_images_comprehensive (Some
      [Tag ''img'' [(''alt'', '''')] [], Tag ''img'' [(''alt'', ''logo'')] [], Tag ''img'' [] []]))"
proof -
  have "\<forall>img \<in> set (find_all_named ''img''
      [Tag ''img'' [(''alt'', '''')] [], Tag ''img'' [(''alt'', ''logo'')] [], Tag ''img'' [] []]).
      \<not> whitespace_only_alt img"
    by (simp add: find_all_named_def find_all_def whitespace_only_alt_def py_strip_def py_isspace_def)
  then show ?thesis
    using alt_tallies_agree_amended [of
      "[Tag ''img'' [(''alt'', '''')] [], Tag ''img'' [(''alt'', ''logo'')] [], Tag ''img'' [] []]"]
    by blast
qed

section \<open>The complexity score\<close>

text \<open>
  Claim C2 as stated fails: for the document \<^verbatim>\<open><html></html>\<close> the analyzer reports
  one element and depth 0, and a complexity score of 0 instead of 1. The factor 1
  replaces the depth only when the document has no \<^verbatim>\<open>html\<close> element.
\<close>

theorem complexity_score_floor_counterexample:
  "complexity_score (calculate_dom_complexity [Tag ''html'' [] []]) \<noteq>
   total_elements (calculate_dom_complexity [Tag ''html'' [] []])
     * max (max_depth (calculate_dom_complexity [Tag ''html'' [] []])) 1"
  by code_simp

text \<open>
  Claim C2, amended. The complexity score is \<open>total_elements\<close> times \<open>max_depth\<close> when
  the document has an \<^verbatim>\<open>html\<close> element and \<open>total_elements\<close> times 1 when it has none.
  It equals \<open>total_elements * max max_depth 1\<close> whenever the document has no \<^verbatim>\<open>html\<close>
  element or the reported depth is positive.
\<close>

theorem complexity_score_amended:
  "complexity_score (calculate_dom_complexity sp) =
     total_elements (calculate_dom_complexity sp) *
       (if find_named ''html'' sp = None then 1 else max_depth (calculate_dom_complexity sp)) \<and>
   (find_named ''html'' sp = None \<or> 0 < max_depth (calculate_dom_complexity sp) \<longrightarrow>
      complexity_score (calculate_dom_complexity sp) =
        total_elements (calculate_dom_complexity sp)
          * max (max_depth (calculate_dom_complexity sp)) 1)"
  by (cases "find_named ''html'' sp")
     (auto simp: calculate_dom_complexity_def Let_def max_def)

theorem complexity_score_amended_witness:
  "complexity_score (calculate_dom_complexity
      [Tag ''html'' [] [Tag ''body'' [] [Tag ''p'' [] [Text ''x'']]]]) = 3 * max 2 1 \<and>
   complexity_score (calculate_dom_complexity [Tag ''div'' [] [Tag ''p'' [] []]]) = 2 * max 0 1"
proof -
  have a: "0 < max_depth (calculate_dom_complexity
      [Tag ''html'' [] [Tag ''body'' [] [Tag ''p'' [] [Text ''x'']]]])"
    by code_simp
  have b: "find_named ''html'' [Tag ''div'' [] [Tag ''p'' [] []]] = None"
    by code_simp
  have c: "total_elements (calculate_dom_complexity
      [Tag ''html'' [] [Tag ''body'' [] [Tag ''p'' [] [Text ''x'']]]]) = 3 \<and>
     max_depth (calculate_dom_complexity
      [Tag ''html'' [] [Tag ''body'' [] [Tag ''p'' [] [Text ''x'']]]]) = 2 \<and>
     total_elements (calculate_dom_complexity [Tag ''div'' [] [Tag ''p'' [] []]]) = 2 \<and>
     max_depth (calculate_dom_complexity [Tag ''div'' [] [Tag ''p'' [] []]]) = 0"
    by code_simp
  show ?thesis
    using a b c
      complexity_score_amended [of "[Tag ''html'' [] [Tag ''body'' [] [Tag ''p'' [] [Text ''x'']]]]"]
      complexity_score_amended [of "[Tag ''div'' [] [Tag ''p'' [] []]]"]
    by simp
qed

section \<open>ID analysis\<close>

lemma id_seen_without:
  "id_seen (an\<lparr>elements_without_ids := k\<rparr>) i = (id_seen an i)\<lparr>elements_without_ids := k\<rparr>"
  by (simp add: id_seen_def Let_def)

lemma foldl_id_seen_without:
  "foldl id_seen (an\<lparr>elements_without_ids := k\<rparr>) ids =
     (foldl id_seen an ids)\<lparr>elements_without_ids := k\<rparr>"
  by (induction ids arbitrary: an) (simp_all add: id_seen_without)

lemma id_step_truthy:
  "truthy (get_attr e ''id'') \<Longrightarrow>
     id_step an e = id_seen an (case get_attr e ''id'' of Some i \<Rightarrow> i | None \<Rightarrow> [])"
  by (simp add: id_step_def)

lemma id_step_falsy:
  "\<not> truthy (get_attr e ''id'') \<Longrightarrow>
     id_step an e = an\<lparr>elements_without_ids := elements_without_ids an + 1\<rparr>"
  by (simp add: id_step_def)

lemma ids_of_Cons:
  "ids_of (e # es) =
     (if truthy (get_attr e ''id'')
      then (case get_attr e ''id'' of Some i \<Rightarrow> i | None \<Rightarrow> []) # ids_of es
      else ids_of es)"
  by (simp add: ids_of_def)

lemma elements_without_ids_id_seen:
  "elements_without_ids (id_seen an i) = elements_without_ids an"
  by (simp add: id_seen_def Let_def)

lemma foldl_id_step:
  "foldl id_step an es =
     (foldl id_seen an (ids_of es))
       \<lparr>elements_without_ids :=
          elements_without_ids an + length (filter (\<lambda>e. \<not> truthy (get_attr e ''id'')) es)\<rparr>"
proof (induction es arbitrary: an)
  case Nil
  show ?case by (simp add: ids_of_def)
next
  case (Cons e es)
  show ?case
  proof (cases "truthy (get_attr e ''id'')")
    case True
    have "foldl id_step an (e # es) =
        foldl id_step (id_seen an (case get_attr e ''id'' of Some i \<Rightarrow> i | None \<Rightarrow> [])) es"
      by (simp only: foldl_Cons id_step_truthy [OF True])
    also have "\<dots> =
        (foldl id_seen (id_seen an (case get_attr e ''id'' of Some i \<Rightarrow> i | None \<Rightarrow> []))
           (ids_of es))
         \<lparr>elements_without_ids := elements_without_ids an
            + length (filter (\<lambda>e. \<not> truthy (get_attr e ''id'')) es)\<rparr>"
      by (simp only: Cons.IH elements_without_ids_id_seen)
    finally show ?thesis
      using True by (simp add: ids_of_Cons)
  next
    case False
    have "foldl id_step an (e # es) =
        foldl id_step (an\<lparr>elements_without_ids := elements_without_ids an + 1\<rparr>) es"
      by (simp only: foldl_Cons id_step_falsy [OF False])
    also have "\<dots> =
        (foldl id_seen (an\<lparr>elements_without_ids := elements_without_ids an + 1\<rparr>) (ids_of es))
         \<lparr>elements_without_ids :=
            elements_without_ids (an\<lparr>elements_without_ids := elements_without_ids an + 1\<rparr>)
            + length (filter (\<lambda>e. \<not> truthy (get_attr e ''id'')) es)\<rparr>"
      by (simp only: Cons.IH)
    finally show ?thesis
      using False by (simp add: ids_of_Cons foldl_id_seen_without)
  qed
qed

lemma unique_ids_id_seen: "unique_ids an \<subseteq> unique_ids (id_seen an i)"
  by (auto simp: id_seen_def Let_def)

lemma unique_ids_id_step: "unique_ids an \<subseteq> unique_ids (id_step an e)"
  using unique_ids_id_seen by (simp add: id_step_def)

lemma unique_ids_foldl: "unique_ids an \<subseteq> unique_ids (foldl id_step an es)"
proof (induction es arbitrary: an)
  case Nil
  show ?case by simp
next
  case (Cons e es)
  have "unique_ids an \<subseteq> unique_ids (id_step an e)" by (rule unique_ids_id_step)
  also have "\<dots> \<subseteq> unique_ids (foldl id_step (id_step an e) es)" by (rule Cons.IH)
  finally show ?case by simp
qed

lemma ids_a_a_b:
  assumes "a \<noteq> b"
  shows "unique_ids (foldl id_seen id_analysis_init [a, a, b]) = {a, b}"
    and "elements_with_ids (foldl id_seen id_analysis_init [a, a, b]) = 3"
    and "duplicate_ids (foldl id_seen id_analysis_init [a, a, b]) = [a \<mapsto> 2]"
  using assms
  by (auto simp: id_seen_def Let_def id_analysis_init_def set_default_def increment_def)

text \<open>
  Claim C6. On a document whose non-empty \<^verbatim>\<open>id\<close> values are \<open>a\<close>, \<open>a\<close>, \<open>b\<close> in this
  order (with \<open>a\<close> and \<open>b\<close> different), the analysis has the unique-id set \<open>{a, b}\<close> of
  size 2, three elements with ids, and a duplicate-id mapping whose only key is \<open>a\<close>,
  with the value 2. The unique-id set only grows: no step of the loop, and hence no run
  of it, removes an id from the set.
\<close>

theorem ids_a_a_b_analysis:
  "(ids_of (find_all sp) = [a, a, b] \<and> a \<noteq> b \<longrightarrow>
      unique_ids (analyze_ids_comprehensive (Some sp)) = {a, b} \<and>
      card (unique_ids (analyze_ids_comprehensive (Some sp))) = 2 \<and>
      elements_with_ids (analyze_ids_comprehensive (Some sp)) = 3 \<and>
      dom (duplicate_ids (analyze_ids_comprehensive (Some sp))) = {a} \<and>
      duplicate_ids (analyze_ids_comprehensive (Some sp)) a = Some 2) \<and>
   unique_ids an \<subseteq> unique_ids (id_step an e) \<and>
   unique_ids an \<subseteq> unique_ids (foldl id_step an es)"
proof -
  have "unique_ids (analyze_ids_comprehensive (Some sp)) = {a, b} \<and>
      card (unique_ids (analyze_ids_comprehensive (Some sp))) = 2 \<and>
      elements_with_ids (analyze_ids_comprehensive (Some sp)) = 3 \<and>
      dom (duplicate_ids (analyze_ids_comprehensive (Some sp))) = {a} \<and>
      duplicate_ids (analyze_ids_comprehensive (Some sp)) a = Some 2"
    if ids: "ids_of (find_all sp) = [a, a, b]" and ne: "a \<noteq> b"
  proof -
    have "analyze_ids_comprehensive (Some sp) =
        (foldl id_seen id_analysis_init [a, a, b])
          \<lparr>elements_without_ids := elements_without_ids id_analysis_init
             + length (filter (\<lambda>e. \<not> truthy (get_attr e ''id'')) (find_all sp))\<rparr>"
      by (simp add: analyze_ids_comprehensive_def foldl_id_step ids)
    then show ?thesis
      using ids_a_a_b [OF ne] ne by simp
  qed
  then show ?thesis
    using unique_ids_id_step [of an e] unique_ids_foldl [of an es] by blast
qed

theorem ids_a_a_b_analysis_witness:
  "unique_ids (analyze_ids_comprehensive (Some
      [Tag ''html'' [] [Tag ''div'' [(''id'', ''a'')] [Tag ''p'' [(''id'', ''a'')] [Text ''x''],
         Tag ''p'' [(''id'', '''')] []], Tag ''span'' [(''id'', ''b'')] []]])) = {''a'', ''b''} \<and>
   elements_with_ids (analyze_ids_comprehensive (Some
      [Tag ''html'' [] [Tag ''div'' [(''id'', ''a'')] [Tag ''p'' [(''id'', ''a'')] [Text ''x''],
         Tag ''p'' [(''id'', '''')] []], Tag ''span'' [(''id'', ''b'')] []]])) = 3 \<and>
   duplicate_ids (analyze_ids_comprehensive (Some
      [Tag ''html'' [] [Tag ''div'' [(''id'', ''a'')] [Tag ''p'' [(''id'', ''a'')] [Text ''x''],
         Tag ''p'' [(''id'', '''')] []], Tag ''span'' [(''id'', ''b'')] []]])) ''a'' = Some 2"
proof -
  have h: "ids_of (find_all
      [Tag ''html'' [] [Tag ''div'' [(''id'', ''a'')] [Tag ''p'' [(''id'', ''a'')] [Text ''x''],
         Tag ''p'' [(''id'', '''')] []], Tag ''span'' [(''id'', ''b'')] []]]) = [''a'', ''a'', ''b'']"
    by code_simp
  have ne: "''a'' \<noteq> ''b''" by simp
  show ?thesis
    using h ne ids_a_a_b_analysis [of _ "''a''" "''b''"] by blast
qed

section \<open>The data-point count\<close>

lemma foldl_count:
  fixes f :: "'a \<Rightarrow> nat \<Rightarrow> nat"
  assumes "\<And>v c. v \<in> set vs \<Longrightarrow> f v c = c + g v"
  shows "foldl (\<lambda>c v. f v c) c0 vs = c0 + sum_list (map g vs)"
  using assms
proof (induction vs arbitrary: c0)
  case Nil
  show ?case by simp
next
  case (Cons v vs)
  have "foldl (\<lambda>c v. f v c) (f v c0) vs = f v c0 + sum_list (map g vs)"
    by (rule Cons.IH) (simp add: Cons.prems)
  then show ?case by (simp add: Cons.prems)
qed

lemma count_total_statistics_structural:
  "count_total_statistics obj c = c + structural_count obj"
proof (induction obj arbitrary: c)
  case (PDict kvs)
  have "foldl (\<lambda>c v. count_total_statistics v c) (c + length kvs) (map snd kvs)
      = (c + length kvs) + sum_list (map structural_count (map snd kvs))"
  proof (rule foldl_count)
    fix v c'
    assume "v \<in> set (map snd kvs)"
    then obtain k where "(k, v) \<in> set kvs" by auto
    then show "count_total_statistics v c' = c' + structural_count v"
      using PDict.IH [of "(k, v)" v c'] by simp
  qed
  then show ?case by (simp add: comp_def)
next
  case (PList items)
  have "foldl (\<lambda>c v. count_total_statistics v c) (c + length items) items
      = (c + length items) + sum_list (map structural_count items)"
    by (rule foldl_count) (rule PList.IH)
  then show ?case by simp
qed simp_all

lemma dict_without_append:
  "k \<notin> fst ` set kvs \<Longrightarrow> dict_without k (PDict (kvs @ [(k, v)])) = PDict kvs"
  by (auto simp: filter_id_conv)

lemma map_of_append_new:
  "k \<notin> fst ` set kvs \<Longrightarrow> map_of (kvs @ [(k, v)]) k = Some v"
proof -
  assume "k \<notin> fst ` set kvs"
  then have "map_of kvs k = None" by (simp add: map_of_eq_None_iff)
  then show ?thesis by (simp add: map_add_def)
qed

lemma all_stats_keys:
  "map fst (all_stats an url ua rd) =
     [''url'', ''user_agent_used'', ''fetch_info'', ''dom_complexity'', ''css_analysis'',
      ''javascript_analysis'', ''performance_metrics'', ''seo_signals'', ''accessibility'',
      ''security'']"
  by (simp add: all_stats_def Let_def)

lemma meta_not_in_all_stats: "''meta_statistics'' \<notin> fst ` set (all_stats an url ua rd)"
proof -
  have "''meta_statistics'' \<notin> set (map fst (all_stats an url ua rd))"
    unfolding all_stats_keys by simp
  then show ?thesis by simp
qed

text \<open>
  Claim C7. In every merged result of the core analyzer the entry
  \<^verbatim>\<open>meta_statistics.total_data_points\<close> is the structural count of the result without
  its \<^verbatim>\<open>meta_statistics\<close> block, and the counter of the code computes the structural
  count of the specification on every value.
\<close>

theorem meta_total_data_points:
  "dict_path (generate_comprehensive_analysis an clk url ua (Some rd))
       [''meta_statistics'', ''total_data_points'']
     = Some (PInt (int (structural_count
         (dict_without ''meta_statistics''
            (generate_comprehensive_analysis an clk url ua (Some rd)))))) \<and>
   count_total_statistics obj 0 = structural_count obj \<and>
   count_total_statistics obj c = c + structural_count obj"
proof -
  let ?stats = "all_stats an url ua rd"
  let ?r = "generate_comprehensive_analysis an clk url ua (Some rd)"
  have r: "?r = PDict (?stats @ [(''meta_statistics'', meta_statistics clk ?stats)])"
    by (simp add: generate_comprehensive_analysis_def Let_def)
  have without: "dict_without ''meta_statistics'' ?r = PDict ?stats"
    unfolding r by (rule dict_without_append [OF meta_not_in_all_stats])
  have meta: "dict_get ?r ''meta_statistics'' = Some (meta_statistics clk ?stats)"
    unfolding r using map_of_append_new [OF meta_not_in_all_stats] by simp
  have total: "dict_get (meta_statistics clk ?stats) ''total_data_points''
      = Some (PInt (int (count_total_statistics (PDict ?stats) 0)))"
    by (simp add: meta_statistics_def)
  have "dict_path ?r [''meta_statistics'', ''total_data_points'']
      = Some (PInt (int (count_total_statistics (PDict ?stats) 0)))"
    by (simp add: meta total)
  also have "count_total_statistics (PDict ?stats) 0 = structural_count (PDict ?stats)"
    using count_total_statistics_structural [of "PDict ?stats" 0] by simp
  finally have "dict_path ?r [''meta_statistics'', ''total_data_points'']
      = Some (PInt (int (structural_count (dict_without ''meta_statistics'' ?r))))"
    by (simp only: without)
  then show ?thesis
    using count_total_statistics_structural [of obj 0]
      count_total_statistics_structural [of obj c] by simp
qed

theorem meta_total_data_points_witness:
  "dict_path (generate_comprehensive_analysis empty_analyzers sample_clock
       ''https://example.com'' ''desktop_chrome''
       (Some \<lparr>status_code = 200, content_length = 13, rd_headers = Map.empty,
              response_time = 1 / 2, html = ''<html></html>'',
              rd_soup = [Tag ''html'' [] []]\<rparr>))
     [''meta_statistics'', ''total_data_points''] = Some (PInt 18)"
proof -
  have "structural_count (dict_without ''meta_statistics''
      (generate_comprehensive_analysis empty_analyzers sample_clock
         ''https://example.com'' ''desktop_chrome''
         (Some \<lparr>status_code = 200, content_length = 13, rd_headers = Map.empty,
                response_time = 1 / 2, html = ''<html></html>'',
                rd_soup = [Tag ''html'' [] []]\<rparr>))) = 18"
    by (simp add: generate_comprehensive_analysis_def all_stats_def meta_statistics_def
          empty_analyzers_def Let_def)
  then show ?thesis
    using meta_total_data_points [of empty_analyzers sample_clock
        "''https://example.com''" "''desktop_chrome''"
        "\<lparr>status_code = 200, content_length = 13, rd_headers = Map.empty,
           response_time = 1 / 2, html = ''<html></html>'',
           rd_soup = [Tag ''html'' [] []]\<rparr>"]
    by simp
qed

section \<open>Fetch failure\<close>

text \<open>
  Claim C3 as stated fails for the core analyzer: its failure result has three keys,
  the third being \<^verbatim>\<open>timestamp\<close>.
\<close>

theorem fetch_failure_two_keys_counterexample:
  "length (dict_keys (generate_comprehensive_analysis empty_analyzers sample_clock
      ''https://example.com'' ''desktop_chrome'' None)) \<noteq> 2"
  by (simp add: generate_comprehensive_analysis_def)

text \<open>
  Claim C3, amended. When the fetch fails, the comprehensive analyzer returns exactly
  the two keys \<^verbatim>\<open>error\<close> and \<^verbatim>\<open>url\<close>, the core analyzer exactly the three keys
  \<^verbatim>\<open>error\<close>, \<^verbatim>\<open>url\<close> and \<^verbatim>\<open>timestamp\<close>; \<^verbatim>\<open>url\<close> holds the requested URL, and
  neither result holds any analyzer output.
\<close>

theorem fetch_failure_result:
  "generate_comprehensive_analysis an clk url user_agent None =
     PDict [(''error'', PStr (''Failed to fetch page with '' @ user_agent)),
            (''url'', PStr url),
            (''timestamp'', PStr (timestamp clk))] \<and>
   dict_keys (generate_comprehensive_analysis an clk url user_agent None) =
     [''error'', ''url'', ''timestamp''] \<and>
   comprehensive_generate_comprehensive_analysis can clk url None =
     PDict [(''error'', PStr ''Failed to fetch page''), (''url'', PStr url)] \<and>
   dict_keys (comprehensive_generate_comprehensive_analysis can clk url None) =
     [''error'', ''url'']"
  by (simp add: generate_comprehensive_analysis_def
        comprehensive_generate_comprehensive_analysis_def)

section \<open>Resolution of relative URLs\<close>

text \<open>
  Claim C5 as stated fails: on a page fetched over \<^verbatim>\<open>http\<close>, the protocol-relative
  reference \<^verbatim>\<open>//cdn.example.org/lib.js\<close> is resolved to an \<^verbatim>\<open>https\<close> URL by both
  analyzers, not to one with the scheme of the page.
\<close>

theorem protocol_relative_counterexample:
  "resolve_link \<lparr>scheme = ''http'', netloc = ''example.com''\<rparr> ''//cdn.example.org/lib.js''
     \<noteq> scheme \<lparr>scheme = ''http'', netloc = ''example.com''\<rparr> @ '':''
         @ ''//cdn.example.org/lib.js'' \<and>
   resolve_resource \<lparr>scheme = ''http'', netloc = ''example.com''\<rparr> ''//cdn.example.org/lib.js''
     \<noteq> scheme \<lparr>scheme = ''http'', netloc = ''example.com''\<rparr> @ '':''
         @ ''//cdn.example.org/lib.js''"
  by (simp add: resolve_link_def resolve_resource_def)

text \<open>
  Claim C5, amended. Both analyzers resolve a reference that starts with \<^verbatim>\<open>//\<close> by
  putting \<^verbatim>\<open>https:\<close> in front of it, whatever the scheme of the analyzed URL (the
  result has the scheme of the analyzed URL exactly when that scheme is \<^verbatim>\<open>https\<close>),
  and a reference that starts with a single \<^verbatim>\<open>/\<close> by putting the scheme and network
  location of the analyzed URL in front of it. The link analyzer classifies the
  resolved URL of every href that starts with \<^verbatim>\<open>/\<close>, and the network analyzer records
  the resolved URL of every such reference.
\<close>

theorem url_resolution_amended:
  "(prefix ''//'' href \<longrightarrow>
      resolve_link pu href = ''https:'' @ href \<and>
      resolve_resource pu href = ''https:'' @ href \<and>
      (resolve_link pu href = scheme pu @ '':'' @ href \<longleftrightarrow> scheme pu = ''https'')) \<and>
   (prefix ''/'' href \<and> \<not> prefix ''//'' href \<longrightarrow>
      resolve_link pu href = scheme pu @ ''://'' @ netloc pu @ href \<and>
      resolve_resource pu href = scheme pu @ ''://'' @ netloc pu @ href) \<and>
   (prefix ''/'' (py_strip (case get_attr link ''href'' of Some h \<Rightarrow> h | None \<Rightarrow> [])) \<longrightarrow>
      link_step lib pu base_domain an link =
        classify_link lib pu base_domain an
          (resolve_link pu (py_strip (case get_attr link ''href'' of Some h \<Rightarrow> h | None \<Rightarrow> [])))) \<and>
   (get_attr element attr = Some href \<and> prefix ''/'' href \<and>
    startswith_any [''http://'', ''https://''] (resolve_resource pu href) \<longrightarrow>
      resource_step lib pu tag attr an' element =
        record_resource lib tag an' (resolve_resource pu href))"
proof -
  have scheme_eq: "(''https:'' @ href = scheme pu @ '':'' @ href) \<longleftrightarrow> scheme pu = ''https''"
  proof -
    have "''https:'' @ href = (''https'' @ '':'') @ href" by simp
    moreover have "scheme pu @ '':'' @ href = (scheme pu @ '':'') @ href" by simp
    ultimately have "(''https:'' @ href = scheme pu @ '':'' @ href)
        \<longleftrightarrow> (''https'' @ '':'' = scheme pu @ '':'')"
      by (simp only: same_append_eq append_same_eq)
    also have "\<dots> \<longleftrightarrow> scheme pu = ''https''"
      by (simp only: append_same_eq) auto
    finally show ?thesis .
  qed
  have a: "prefix ''//'' href \<longrightarrow>
      resolve_link pu href = ''https:'' @ href \<and>
      resolve_resource pu href = ''https:'' @ href \<and>
      (resolve_link pu href = scheme pu @ '':'' @ href \<longleftrightarrow> scheme pu = ''https'')"
    using scheme_eq by (simp add: resolve_link_def resolve_resource_def)
  have b: "prefix ''/'' href \<and> \<not> prefix ''//'' href \<longrightarrow>
      resolve_link pu href = scheme pu @ ''://'' @ netloc pu @ href \<and>
      resolve_resource pu href = scheme pu @ ''://'' @ netloc pu @ href"
    by (simp add: resolve_link_def resolve_resource_def)
  have c: "link_step lib pu base_domain an link =
        classify_link lib pu base_domain an (resolve_link pu h')"
    if "prefix ''/'' h'" and "h' = py_strip (case get_attr link ''href'' of Some h \<Rightarrow> h | None \<Rightarrow> [])"
    for h'
  proof -
    from that(1) obtain r where r: "h' = CHR ''/'' # r"
      by (cases h') (auto simp: prefix_def)
    have "\<not> prefix ''#'' h'" "\<not> prefix ''mailto:'' h'" "\<not> prefix ''tel:'' h'"
      "startswith_any [''http://'', ''https://'', ''//'', ''/''] h'"
      by (simp_all add: r startswith_any_def)
    then show ?thesis
      unfolding link_step_def Let_def that(2) [symmetric] by simp
  qed
  have d: "resource_step lib pu tag attr an' element =
        record_resource lib tag an' (resolve_resource pu href)"
    if "get_attr element attr = Some href" "prefix ''/'' href"
       "startswith_any [''http://'', ''https://''] (resolve_resource pu href)"
  proof -
    from that(2) have "href \<noteq> []" by auto
    with that(1) have "truthy (get_attr element attr)" by (simp add: truthy_def)
    with that(1,3) show ?thesis
      by (simp add: resource_step_def Let_def)
  qed
  show ?thesis
    using a b c d by blast
qed

theorem url_resolution_amended_witness:
  "resolve_link \<lparr>scheme = ''http'', netloc = ''example.com''\<rparr> ''//cdn.example.org/lib.js''
     = ''https://cdn.example.org/lib.js'' \<and>
   resolve_resource \<lparr>scheme = ''http'', netloc = ''example.com''\<rparr> ''//cdn.example.org/lib.js''
     = ''https://cdn.example.org/lib.js'' \<and>
   resolve_link \<lparr>scheme = ''http'', netloc = ''example.com''\<rparr> ''/about''
     = ''http://example.com/about'' \<and>
   link_step simple_library \<lparr>scheme = ''http'', netloc = ''example.com''\<rparr> ''example.com''
       link_analysis_init (Tag ''a'' [(''href'', '' //cdn.example.org/lib.js'')] [])
     = classify_link simple_library \<lparr>scheme = ''http'', netloc = ''example.com''\<rparr>
         ''example.com'' link_analysis_init ''https://cdn.example.org/lib.js'' \<and>
   resource_step simple_library \<lparr>scheme = ''http'', netloc = ''example.com''\<rparr>
       ''script'' ''src'' network_analysis_init
       (Tag ''script'' [(''src'', ''//cdn.example.org/lib.js'')] [])
     = record_resource simple_library ''script'' network_analysis_init
         ''https://cdn.example.org/lib.js''"
proof -
  let ?pu = "\<lparr>scheme = ''http'', netloc = ''example.com''\<rparr>"
  let ?link = "Tag ''a'' [(''href'', '' //cdn.example.org/lib.js'')] []"
  let ?script = "Tag ''script'' [(''src'', ''//cdn.example.org/lib.js'')] []"
  have strip: "py_strip (case get_attr ?link ''href'' of Some h \<Rightarrow> h | None \<Rightarrow> [])
      = ''//cdn.example.org/lib.js''"
    by (simp add: py_strip_def py_isspace_def)
  have p1: "prefix ''//'' ''//cdn.example.org/lib.js''" by simp
  have p2: "prefix ''/'' ''/about'' \<and> \<not> prefix ''//'' ''/about''" by simp
  have p3: "prefix ''/'' (py_strip (case get_attr ?link ''href'' of Some h \<Rightarrow> h | None \<Rightarrow> []))"
    unfolding strip by simp
  have r1: "resolve_resource ?pu ''//cdn.example.org/lib.js'' = ''https://cdn.example.org/lib.js''"
    using p1 url_resolution_amended [where href = "''//cdn.example.org/lib.js''" and pu = ?pu] by simp
  have p4: "get_attr ?script ''src'' = Some ''//cdn.example.org/lib.js'' \<and>
      prefix ''/'' ''//cdn.example.org/lib.js'' \<and>
      startswith_any [''http://'', ''https://''] (resolve_resource ?pu ''//cdn.example.org/lib.js'')"
    unfolding r1 by (simp add: startswith_any_def)
  have l1: "resolve_link ?pu ''//cdn.example.org/lib.js'' = ''https://cdn.example.org/lib.js''"
    using p1 url_resolution_amended [where href = "''//cdn.example.org/lib.js''" and pu = ?pu] by simp
  have l2: "resolve_link ?pu ''/about'' = ''http://example.com/about''"
    using p2 url_resolution_amended [where href = "''/about''" and pu = ?pu] by simp
  have s1: "link_step simple_library ?pu ''example.com'' link_analysis_init ?link
      = classify_link simple_library ?pu ''example.com'' link_analysis_init
          (resolve_link ?pu ''//cdn.example.org/lib.js'')"
    using p3 url_resolution_amended [where pu = ?pu and link = ?link and lib = simple_library
        and base_domain = "''example.com''" and an = link_analysis_init]
    unfolding strip by blast
  have s2: "resource_step simple_library ?pu ''script'' ''src'' network_analysis_init ?script
      = record_resource simple_library ''script'' network_analysis_init
          (resolve_resource ?pu ''//cdn.example.org/lib.js'')"
    using p4 url_resolution_amended [where href = "''//cdn.example.org/lib.js''" and pu = ?pu
        and element = ?script and attr = "''src''" and lib = simple_library
        and tag = "''script''" and an' = network_analysis_init]
    by blast
  show ?thesis
    using l1 l2 r1 s1 s2 by simp
qed

section \<open>Malformed sub-content\<close>

text \<open>
  What the two handlers do. A JSON-LD block that \<^verbatim>\<open>json.loads\<close> rejects with
  \<^verbatim>\<open>JSONDecodeError\<close> leaves the collected types as they were; an exception of
  \<^verbatim>\<open>json.loads\<close> that the handler does not name leaves the loop. The tabindex loop
  always returns, and counts the elements whose value is read as a positive integer.
\<close>

lemma schema_step_invalid:
  "invalid_json_ld jl script \<Longrightarrow> schema_step jl ts script = Inr ts"
  by (simp add: invalid_json_ld_def schema_step_def schema_try_def)

lemma schema_step_uncaught:
  assumes "truthy (node_string script)"
    and "jl (case node_string script of Some s \<Rightarrow> s | None \<Rightarrow> []) = Inl e"
    and "e \<noteq> JSONDecodeError" and "e \<noteq> TypeError"
  shows "schema_step jl ts script = Inl e"
  using assms by (cases e) (simp_all add: schema_step_def schema_try_def)

lemma schema_loop_skips_invalid:
  "schema_loop jl ts scripts =
     schema_loop jl ts (filter (\<lambda>s. \<not> invalid_json_ld jl s) scripts)"
proof (induction scripts arbitrary: ts)
  case Nil
  show ?case by simp
next
  case (Cons s scripts)
  show ?case
  proof (cases "invalid_json_ld jl s")
    case True
    then show ?thesis by (simp add: schema_step_invalid Cons.IH)
  next
    case False
    then show ?thesis by (simp add: Cons.IH split: sum.splits)
  qed
qed

lemma brand_position_raises:
  "brand_position_of istitle text = Inl e \<longleftrightarrow>
     e = IndexError \<and> text \<noteq> [] \<and> py_split text = []"
  by (auto simp: brand_position_of_def split: list.splits)

lemma content_quality_raises:
  "filter (\<lambda>s. py_strip s \<noteq> []) (re_split_sentences text) = [] \<Longrightarrow>
     py_split text = [] \<Longrightarrow>
     analyze_content_quality text = Inl StatisticsError"
proof -
  have "split_sentences cur t \<noteq> []" for cur t
    by (induction cur t rule: split_sentences.induct) simp_all
  then have "re_split_sentences text \<noteq> []"
    by (simp add: re_split_sentences_def)
  then show "filter (\<lambda>s. py_strip s \<noteq> []) (re_split_sentences text) = [] \<Longrightarrow>
     py_split text = [] \<Longrightarrow>
     analyze_content_quality text = Inl StatisticsError"
    by (simp add: analyze_content_quality_def Let_def statistics_mean_def)
qed

lemma tabindex_step_eq:
  "tabindex_step pint n elem = Inr (if has_positive_tabindex pint elem then n + 1 else n)"
  by (simp add: tabindex_step_def tabindex_try_def has_positive_tabindex_def
        split: option.splits)

lemma tabindex_loop_eq:
  "tabindex_loop pint n elems = Inr (n + length (filter (has_positive_tabindex pint) elems))"
  by (induction elems arbitrary: n) (simp_all add: tabindex_step_eq)

lemma keyboard_nav_returns:
  "analyze_keyboard_nav pint sp =
     Inr \<lparr>tabindex_elements = length (find_all_with ''tabindex'' sp),
          positive_tabindex =
            length (filter (has_positive_tabindex pint) (find_all_with ''tabindex'' sp)),
          accesskey_elements = length (find_all_with ''accesskey'' sp)\<rparr>"
  by (simp add: analyze_keyboard_nav_def tabindex_loop_eq)

text \<open>
  Claim C8 says that on every well-formed document a JSON-LD block that is not valid
  JSON is skipped and the enclosing analyzer completes and returns its result. The
  code breaks it. On the first document below, with a \<^verbatim>\<open>title\<close> element that holds
  one space and a JSON-LD block that is not JSON, the Schema.org statements do skip
  the block (one block counted, no type collected), but the analyzer returns nothing:
  it raises \<^verbatim>\<open>IndexError\<close> in the title statements. On the second document, whose
  only text is a JSON-LD block that is not JSON and holds no sentence, it raises
  \<^verbatim>\<open>StatisticsError\<close> in the content-quality statements.
\<close>

theorem seo_analyzer_raises_with_invalid_json_ld:
  "analyze_seo_signals sample_seo_library
     [Tag ''html'' []
        [Tag ''head'' []
           [Tag ''title'' [] [Text '' ''],
            Tag ''script'' [(''type'', ''application/ld+json'')]
              [Text ''{ invalid json content'']],
         Tag ''body'' [] [Tag ''p'' [] [Text ''Test'']]]]
     = Inl IndexError \<and>
   analyze_schema_org sample_json_loads
     [Tag ''html'' []
        [Tag ''head'' []
           [Tag ''title'' [] [Text '' ''],
            Tag ''script'' [(''type'', ''application/ld+json'')]
              [Text ''{ invalid json content'']],
         Tag ''body'' [] [Tag ''p'' [] [Text ''Test'']]]]
     = Inr \<lparr>json_ld_count = 1, types = []\<rparr> \<and>
   analyze_seo_signals sample_seo_library
     [Tag ''html'' []
        [Tag ''head'' [] [Tag ''script'' [(''type'', ''application/ld+json'')] [Text ''?'']],
         Tag ''body'' [] []]]
     = Inl StatisticsError"
  by code_simp

end
